theory Spec2Isabelle
  imports Complex_Main "HOL-Library.AList"
begin

section \<open>Threshold configuration (similarityService.js, similarityController.js)\<close>

text \<open>
  JavaScript numbers are idealised as real numbers throughout: the scores and thresholds
  below are sums, products and quotients of small integers and decimal constants.
\<close>

text \<open>The object \<^verbatim>\<open>this.thresholds\<close> of \<^verbatim>\<open>SimilarityService\<close>.\<close>

record Thresholds =
  textSimilarity :: real
  phoneticSimilarity :: real
  semanticSimilarity :: real
  overallSimilarity :: real

record SimilarityService =
  thresholds :: Thresholds

text \<open>\<^verbatim>\<open>constructor()\<close>: the four defaults.\<close>

definition SimilarityService_constructor :: SimilarityService where
  "SimilarityService_constructor =
     \<lparr>thresholds = \<lparr>textSimilarity = 0.7, phoneticSimilarity = 0.8,
                     semanticSimilarity = 0.6, overallSimilarity = 0.3\<rparr>\<rparr>"

section \<open>Strings\<close>

text \<open>
  A JavaScript string is modelled as a list of 8-bit characters (the Latin-1 range of its
  code units). \<open>is_space\<close> is the class \<^verbatim>\<open>\s\<close> on that range, which is also the set that
  \<^verbatim>\<open>trim()\<close> strips.
\<close>

definition is_space :: "char \<Rightarrow> bool" where
  "is_space c = ((of_char c :: nat) \<in> set [9, 10, 11, 12, 13, 32, 160])"

definition trim :: "string \<Rightarrow> string" where
  "trim s = rev (dropWhile is_space (rev (dropWhile is_space s)))"

text \<open>\<^verbatim>\<open>toLowerCase()\<close>, one character.\<close>

definition to_lower :: "char \<Rightarrow> char" where
  "to_lower c =
     (let n = (of_char c :: nat) in
      if (65 \<le> n \<and> n \<le> 90) \<or> (192 \<le> n \<and> n \<le> 222 \<and> n \<noteq> 215) then char_of (n + 32) else c)"

text \<open>The class \<^verbatim>\<open>[a-z0-9\s]\<close>.\<close>

definition keep_char :: "char \<Rightarrow> bool" where
  "keep_char c =
     (let n = (of_char c :: nat) in
      (97 \<le> n \<and> n \<le> 122) \<or> (48 \<le> n \<and> n \<le> 57) \<or> is_space c)"

text \<open>\<^verbatim>\<open>replace(/C+/g, ' ')\<close> for a character class \<open>C\<close>: each maximal run of characters
  of the class becomes one blank. \<open>collapse_ws\<close> is \<^verbatim>\<open>replace(/\s+/g, ' ')\<close>.\<close>

function collapse_class :: "(char \<Rightarrow> bool) \<Rightarrow> string \<Rightarrow> string" where
  "collapse_class C [] = []"
| "collapse_class C (c # cs) =
     (if C c then CHR '' '' # collapse_class C (dropWhile C cs)
      else c # collapse_class C cs)"
  by pat_completeness auto
termination
  by (relation "measure (\<lambda>(C, s). length s)") (simp_all add: le_imp_less_Suc length_dropWhile_le)

definition collapse_ws :: "string \<Rightarrow> string" where
  "collapse_ws = collapse_class is_space"

text \<open>\<^verbatim>\<open>normalizeText(text)\<close>.\<close>

definition normalizeText :: "string \<Rightarrow> string" where
  "normalizeText text = trim (collapse_ws (filter keep_char (map to_lower text)))"

section \<open>Lexical measures (similarityService.js)\<close>

subsection \<open>Levenshtein\<close>

text \<open>
  One row of \<^verbatim>\<open>matrix\<close>: \<open>lev_row c xs prev left\<close> fills the cells \<open>matrix[i][j]\<close> for the
  remaining characters \<open>xs\<close> of \<open>str1\<close>, where \<open>c = str2[i-1]\<close>, \<open>prev\<close> is the part of row
  \<open>i-1\<close> that starts at column \<open>j-1\<close>, and \<open>left = matrix[i][j-1]\<close>.
\<close>

fun lev_row :: "char \<Rightarrow> string \<Rightarrow> nat list \<Rightarrow> nat \<Rightarrow> nat list" where
  "lev_row c [] prev left = []"
| "lev_row c (x # xs) prev left =
     (let v = (if c = x then prev ! 0
               else min (min (prev ! 0 + 1) (left + 1)) (prev ! 1 + 1))
      in v # lev_row c xs (tl prev) v)"

text \<open>The rows \<open>i, i+1, \<dots>\<close> of the matrix for the remaining characters of \<open>str2\<close>; row \<open>i\<close>
  starts with \<open>matrix[i][0] = i\<close>.\<close>

fun lev_rows :: "string \<Rightarrow> string \<Rightarrow> nat list \<Rightarrow> nat \<Rightarrow> nat list list" where
  "lev_rows str1 [] prev i = []"
| "lev_rows str1 (c # cs) prev i =
     (let row = i # lev_row c str1 prev i in row # lev_rows str1 cs row (Suc i))"

definition lev_matrix :: "string \<Rightarrow> string \<Rightarrow> nat list list" where
  "lev_matrix str1 str2 =
     (let row0 = [0..<Suc (length str1)] in row0 # lev_rows str1 str2 row0 1)"

definition levenshteinDistance :: "string \<Rightarrow> string \<Rightarrow> nat" where
  "levenshteinDistance str1 str2 = lev_matrix str1 str2 ! length str2 ! length str1"

definition calculateLevenshteinSimilarity :: "string \<Rightarrow> string \<Rightarrow> real" where
  "calculateLevenshteinSimilarity str1 str2 =
     (let distance = levenshteinDistance str1 str2;
          maxLength = max (length str1) (length str2)
      in if maxLength = 0 then 1 else 1 - real distance / real maxLength)"

subsection \<open>Jaro and Jaro-Winkler\<close>

text \<open>
  The state of the matching loop: the two flag arrays and the counter \<^verbatim>\<open>matches\<close>.
  One iteration of the outer loop scans \<open>j = start, \<dots>, end - 1\<close> for the first position
  that is not yet flagged and carries the character \<open>str1[i]\<close>.
\<close>

definition matchWindow :: "string \<Rightarrow> string \<Rightarrow> int" where
  "matchWindow str1 str2 = int (max (length str1) (length str2) div 2) - 1"

definition jaro_scan :: "string \<Rightarrow> string \<Rightarrow> bool list \<Rightarrow> nat \<Rightarrow> nat option" where
  "jaro_scan str1 str2 str2Matches i =
     (let w = matchWindow str1 str2;
          start = nat (max 0 (int i - w));
          end = nat (min (int i + w + 1) (int (length str2)))
      in find (\<lambda>j. \<not> (str2Matches ! j \<or> str1 ! i \<noteq> str2 ! j)) [start..<end])"

definition jaro_match_step ::
  "string \<Rightarrow> string \<Rightarrow> nat \<Rightarrow> bool list \<times> bool list \<times> nat \<Rightarrow> bool list \<times> bool list \<times> nat" where
  "jaro_match_step str1 str2 i st =
     (case st of (str1Matches, str2Matches, matches) \<Rightarrow>
        (case jaro_scan str1 str2 str2Matches i of
           None \<Rightarrow> st
         | Some j \<Rightarrow> (str1Matches[i := True], str2Matches[j := True], Suc matches)))"

definition jaro_matches :: "string \<Rightarrow> string \<Rightarrow> bool list \<times> bool list \<times> nat" where
  "jaro_matches str1 str2 =
     fold (jaro_match_step str1 str2) [0..<length str1]
       (replicate (length str1) False, replicate (length str2) False, 0)"

text \<open>\<^verbatim>\<open>while (!str2Matches[k]) k++\<close>. The flags set in the two arrays are equal in number
  (lemma \<open>jaro_matches_counts\<close> below), so the scan stops on a flagged position inside the
  array; the bound on \<open>k\<close> is never what ends it.\<close>

function skip_unmatched :: "bool list \<Rightarrow> nat \<Rightarrow> nat" where
  "skip_unmatched str2Matches k =
     (if k < length str2Matches \<and> \<not> str2Matches ! k then skip_unmatched str2Matches (Suc k) else k)"
  by pat_completeness auto
termination
  by (relation "measure (\<lambda>(m, k). length m - k)") auto

declare skip_unmatched.simps [simp del]

text \<open>The second loop: \<open>is\<close> are the remaining indices \<open>i\<close>, \<open>k\<close> the cursor into \<open>str2\<close>.\<close>

fun jaro_transpositions ::
  "string \<Rightarrow> string \<Rightarrow> bool list \<Rightarrow> bool list \<Rightarrow> nat list \<Rightarrow> nat \<Rightarrow> nat \<Rightarrow> nat" where
  "jaro_transpositions str1 str2 str1Matches str2Matches [] k transpositions = transpositions"
| "jaro_transpositions str1 str2 str1Matches str2Matches (i # is) k transpositions =
     (if \<not> str1Matches ! i
      then jaro_transpositions str1 str2 str1Matches str2Matches is k transpositions
      else
        (let k' = skip_unmatched str2Matches k
         in jaro_transpositions str1 str2 str1Matches str2Matches is (Suc k')
              (if str1 ! i \<noteq> str2 ! k' then Suc transpositions else transpositions)))"

definition jaroSimilarity :: "string \<Rightarrow> string \<Rightarrow> real" where
  "jaroSimilarity str1 str2 =
     (if length str1 = 0 \<and> length str2 = 0 then 1
      else if length str1 = 0 \<or> length str2 = 0 then 0
      else
        (case jaro_matches str1 str2 of (str1Matches, str2Matches, matches) \<Rightarrow>
           if matches = 0 then 0
           else
             (let transpositions =
                    jaro_transpositions str1 str2 str1Matches str2Matches [0..<length str1] 0 0
              in (real matches / real (length str1) + real matches / real (length str2)
                    + (real matches - real transpositions / 2) / real matches) / 3)))"

text \<open>The prefix loop of \<^verbatim>\<open>calculateJaroWinklerSimilarity\<close>: it stops at the first
  difference and after at most \<open>n\<close> characters.\<close>

fun common_prefix :: "nat \<Rightarrow> string \<Rightarrow> string \<Rightarrow> nat" where
  "common_prefix (Suc n) (x # xs) (y # ys) = (if x = y then Suc (common_prefix n xs ys) else 0)"
| "common_prefix n xs ys = 0"

definition calculateJaroWinklerSimilarity :: "string \<Rightarrow> string \<Rightarrow> real" where
  "calculateJaroWinklerSimilarity str1 str2 =
     (let jaroSim = jaroSimilarity str1 str2 in
      if jaroSim < 0.7 then jaroSim
      else
        (let prefix = common_prefix 4 str1 str2
         in jaroSim + (0.1 * real prefix * (1 - jaroSim))))"

subsection \<open>Longest common substring\<close>

text \<open>The innermost \<^verbatim>\<open>while\<close> of \<^verbatim>\<open>longestCommonSubstring\<close>, on the suffixes that start at
  \<open>i\<close> and \<open>j\<close>.\<close>

fun common_run :: "string \<Rightarrow> string \<Rightarrow> nat" where
  "common_run (x # xs) (y # ys) = (if x = y then Suc (common_run xs ys) else 0)"
| "common_run xs ys = 0"

definition lcs_step :: "string \<Rightarrow> string \<Rightarrow> nat \<Rightarrow> nat \<Rightarrow> string \<Rightarrow> string" where
  "lcs_step str1 str2 i j longest =
     (let k = common_run (drop i str1) (drop j str2)
      in if k > length longest then take k (drop i str1) else longest)"

definition longestCommonSubstring :: "string \<Rightarrow> string \<Rightarrow> string" where
  "longestCommonSubstring str1 str2 =
     fold (\<lambda>i. fold (lcs_step str1 str2 i) [0..<length str2]) [0..<length str1] []"

definition calculateSubstringSimilarity :: "string \<Rightarrow> string \<Rightarrow> real" where
  "calculateSubstringSimilarity str1 str2 =
     (let longer = (if length str1 > length str2 then str1 else str2)
      in if length longer = 0 then 1
         else real (length (longestCommonSubstring str1 str2)) / real (length longer))"

subsection \<open>Combined lexical score\<close>

text \<open>The score \<^verbatim>\<open>textScore\<close> that \<^verbatim>\<open>analyzeTextSimilarity\<close> computes for the target and one
  trademark name, with its three parts.\<close>

record TextSimilarity =
  overall :: real
  levenshtein :: real
  jaroWinkler :: real
  substring :: real

definition textSimilarity_of :: "string \<Rightarrow> string \<Rightarrow> TextSimilarity" where
  "textSimilarity_of targetNormalized normalizedTrademark =
     (let levenshteinScore = calculateLevenshteinSimilarity targetNormalized normalizedTrademark;
          jaroWinklerScore = calculateJaroWinklerSimilarity targetNormalized normalizedTrademark;
          substringScore = calculateSubstringSimilarity targetNormalized normalizedTrademark;
          textScore = levenshteinScore * 0.4 + jaroWinklerScore * 0.4 + substringScore * 0.2
      in \<lparr>overall = textScore, levenshtein = levenshteinScore,
          jaroWinkler = jaroWinklerScore, substring = substringScore\<rparr>)"

definition lexicalScore :: "string \<Rightarrow> string \<Rightarrow> real" where
  "lexicalScore a b = overall (textSimilarity_of (normalizeText a) (normalizeText b))"

section \<open>Records of the corpus (trademarkTypes.js)\<close>

text \<open>Truthiness of a string or \<^verbatim>\<open>undefined\<close>, and the operator \<^verbatim>\<open>||\<close> on such values.\<close>

definition truthy :: "string option \<Rightarrow> bool" where
  "truthy v = (case v of None \<Rightarrow> False | Some s \<Rightarrow> s \<noteq> [])"

definition js_or :: "string option \<Rightarrow> string option \<Rightarrow> string option" where
  "js_or a b = (if truthy a then a else b)"

definition str_of :: "string option \<Rightarrow> string" where
  "str_of v = (case v of None \<Rightarrow> [] | Some s \<Rightarrow> s)"

text \<open>\<^verbatim>\<open>class TrademarkData\<close>: the constructor copies these eighteen keys of its argument
  (each defaulting to the empty string) and no other key.\<close>

record TrademarkData =
  nomorPermohonan :: string
  tanggalPenerimaan :: string
  prioritas :: string
  namaPemohon :: string
  alamatPemohon :: string
  namaKuasa :: string
  alamatKuasa :: string
  tipeMerek :: string
  namaReferensiLabelMerek :: string
  artiBahasa :: string
  uraianWarna :: string
  kelasBarangJasa :: string
  uraianBarangJasa :: string
  statusPermohonan :: string
  tanggalPublikasi :: string
  nomorSertifikat :: string
  tanggalSertifikat :: string
  masaBerlaku :: string

text \<open>Reading a property of a \<^verbatim>\<open>TrademarkData\<close> object by name; \<open>None\<close> is \<^verbatim>\<open>undefined\<close>,
  the value of every name that the constructor does not set.\<close>

definition TrademarkData_prop :: "TrademarkData \<Rightarrow> string \<Rightarrow> string option" where
  "TrademarkData_prop d name =
     map_of
       [(''nomorPermohonan'', nomorPermohonan d), (''tanggalPenerimaan'', tanggalPenerimaan d),
        (''prioritas'', prioritas d), (''namaPemohon'', namaPemohon d),
        (''alamatPemohon'', alamatPemohon d), (''namaKuasa'', namaKuasa d),
        (''alamatKuasa'', alamatKuasa d), (''tipeMerek'', tipeMerek d),
        (''namaReferensiLabelMerek'', namaReferensiLabelMerek d), (''artiBahasa'', artiBahasa d),
        (''uraianWarna'', uraianWarna d), (''kelasBarangJasa'', kelasBarangJasa d),
        (''uraianBarangJasa'', uraianBarangJasa d), (''statusPermohonan'', statusPermohonan d),
        (''tanggalPublikasi'', tanggalPublikasi d), (''nomorSertifikat'', nomorSertifikat d),
        (''tanggalSertifikat'', tanggalSertifikat d), (''masaBerlaku'', masaBerlaku d)]
       name"

text \<open>\<^verbatim>\<open>validate().isValid\<close>: the three required fields are non-empty.\<close>

definition isValid :: "TrademarkData \<Rightarrow> bool" where
  "isValid d = (nomorPermohonan d \<noteq> [] \<and> namaReferensiLabelMerek d \<noteq> [] \<and> kelasBarangJasa d \<noteq> [])"

text \<open>\<^verbatim>\<open>new TrademarkData(data)\<close>: \<open>data\<close> maps the keys of the argument object to their values;
  each field is \<^verbatim>\<open>data.key || ''\<close>. Keys outside the eighteen are not copied.\<close>

definition TrademarkData_new :: "(string \<Rightarrow> string option) \<Rightarrow> TrademarkData" where
  "TrademarkData_new data =
     \<lparr>nomorPermohonan = str_of (js_or (data ''nomorPermohonan'') (Some [])),
      tanggalPenerimaan = str_of (js_or (data ''tanggalPenerimaan'') (Some [])),
      prioritas = str_of (js_or (data ''prioritas'') (Some [])),
      namaPemohon = str_of (js_or (data ''namaPemohon'') (Some [])),
      alamatPemohon = str_of (js_or (data ''alamatPemohon'') (Some [])),
      namaKuasa = str_of (js_or (data ''namaKuasa'') (Some [])),
      alamatKuasa = str_of (js_or (data ''alamatKuasa'') (Some [])),
      tipeMerek = str_of (js_or (data ''tipeMerek'') (Some [])),
      namaReferensiLabelMerek = str_of (js_or (data ''namaReferensiLabelMerek'') (Some [])),
      artiBahasa = str_of (js_or (data ''artiBahasa'') (Some [])),
      uraianWarna = str_of (js_or (data ''uraianWarna'') (Some [])),
      kelasBarangJasa = str_of (js_or (data ''kelasBarangJasa'') (Some [])),
      uraianBarangJasa = str_of (js_or (data ''uraianBarangJasa'') (Some [])),
      statusPermohonan = str_of (js_or (data ''statusPermohonan'') (Some [])),
      tanggalPublikasi = str_of (js_or (data ''tanggalPublikasi'') (Some [])),
      nomorSertifikat = str_of (js_or (data ''nomorSertifikat'') (Some [])),
      tanggalSertifikat = str_of (js_or (data ''tanggalSertifikat'') (Some [])),
      masaBerlaku = str_of (js_or (data ''masaBerlaku'') (Some []))\<rparr>"

text \<open>\<^verbatim>\<open>class TrademarkSearchResult\<close>, the element type of the list that
  \<^verbatim>\<open>parseSearchResults\<close> returns and that the similarity passes iterate over.\<close>

record TrademarkSearchResult =
  tsr_id :: string
  tsr_score :: real
  trademarkData :: TrademarkData
  sourceDocument :: string
  chunkId :: string
  confidence :: real
  matchedFields :: "string list"
  extractedText :: string

text \<open>The string-valued properties of a search result by name; its trademark fields live
  one level down, in \<^verbatim>\<open>trademarkData\<close>.\<close>

definition TrademarkSearchResult_prop :: "TrademarkSearchResult \<Rightarrow> string \<Rightarrow> string option" where
  "TrademarkSearchResult_prop r name =
     map_of
       [(''id'', tsr_id r), (''sourceDocument'', sourceDocument r),
        (''chunkId'', chunkId r), (''extractedText'', extractedText r)]
       name"

section \<open>The embedding provider (vectorService.js)\<close>

datatype error = ProviderError string | VectorsLengthError | IndexError string

text \<open>
  The collaborators of an analysis. \<open>embeddings_create n text\<close> is the answer of the
  provider to the \<open>n\<close>-th call (a vector, or the error it throws); \<open>math_random\<close> is the
  sequence of values that \<^verbatim>\<open>Math.random()\<close> returns; \<open>index_query\<close> stands for the vector
  index queried by \<^verbatim>\<open>getAllTrademarks\<close>, with the parsing of its matches and the date
  filter: it answers with the list of records, or with the message of the error that the
  index throws. The world counts the provider calls and the random draws made so far.
\<close>

record DateRange =
  range_start :: string
  range_end :: string

record Env =
  embeddings_create :: "nat \<Rightarrow> string \<Rightarrow> error + real list"
  math_random :: "nat \<Rightarrow> real"
  index_query :: "real list \<Rightarrow> DateRange option \<Rightarrow> string + TrademarkSearchResult list"

record World =
  calls :: nat
  draws :: nat

text \<open>\<^verbatim>\<open>generateEmbedding(text)\<close>: the text is cut to 8000 characters; when the provider
  throws, the \<^verbatim>\<open>catch\<close> block returns 1536 random numbers scaled by 0.001.\<close>

definition generateEmbedding :: "Env \<Rightarrow> string \<Rightarrow> World \<Rightarrow> real list \<times> World" where
  "generateEmbedding env text w =
     (let maxLength = 8000;
          truncatedText = (if length text > maxLength then take maxLength text else text)
      in case embeddings_create env (calls w) truncatedText of
           Inr embedding \<Rightarrow> (embedding, w\<lparr>calls := Suc (calls w)\<rparr>)
         | Inl e \<Rightarrow>
             (map (\<lambda>i. math_random env (draws w + i) * 0.001) [0..<1536],
              w\<lparr>calls := Suc (calls w), draws := draws w + 1536\<rparr>))"

text \<open>\<^verbatim>\<open>calculateCosineSimilarity(vec1, vec2)\<close>. The quotient of two zeros is \<^verbatim>\<open>NaN\<close>, modelled
  as \<open>None\<close>; a comparison with \<^verbatim>\<open>NaN\<close> is false.\<close>

definition cosine_value :: "real list \<Rightarrow> real list \<Rightarrow> real option" where
  "cosine_value vec1 vec2 =
     (let dotProduct = sum_list (map2 (*) vec1 vec2);
          norm1 = sum_list (map (\<lambda>x. x * x) vec1);
          norm2 = sum_list (map (\<lambda>x. x * x) vec2);
          d = sqrt norm1 * sqrt norm2
      in if d = 0 then None else Some (dotProduct / d))"

definition calculateCosineSimilarity :: "real list \<Rightarrow> real list \<Rightarrow> error + real option" where
  "calculateCosineSimilarity vec1 vec2 =
     (if length vec1 \<noteq> length vec2 then Inl VectorsLengthError
      else Inr (cosine_value vec1 vec2))"

definition nan_ge :: "real option \<Rightarrow> real \<Rightarrow> bool" where
  "nan_ge x t = (case x of None \<Rightarrow> False | Some v \<Rightarrow> v \<ge> t)"

section \<open>The three passes (similarityService.js)\<close>

record TextResult =
  text_trademark :: TrademarkSearchResult
  text_similarity :: TextSimilarity

record DescriptionSimilarity =
  semantic :: real
  description :: string

record DescResult =
  desc_trademark :: TrademarkSearchResult
  desc_similarity :: DescriptionSimilarity

record PhoneticSimilarity =
  phon_score :: real
  targetPhonetic :: string
  trademarkPhonetic :: string

record PhonResult =
  phon_trademark :: TrademarkSearchResult
  phon_similarity :: PhoneticSimilarity

text \<open>The name that \<^verbatim>\<open>analyzeTextSimilarity\<close> compares:
  \<^verbatim>\<open>namaMerek || namaReferensiLabelMerek || (extractedText ? extractedText.split(' ')[0] : '') || ''\<close>.\<close>

definition text_trademarkName :: "TrademarkSearchResult \<Rightarrow> string" where
  "text_trademarkName trademark =
     str_of
       (js_or (TrademarkSearchResult_prop trademark ''namaMerek'')
         (js_or (TrademarkSearchResult_prop trademark ''namaReferensiLabelMerek'')
           (js_or
             (if truthy (TrademarkSearchResult_prop trademark ''extractedText'')
              then Some (takeWhile (\<lambda>c. c \<noteq> CHR '' '') (extractedText trademark))
              else Some [])
             (Some []))))"

definition analyzeTextSimilarity ::
  "SimilarityService \<Rightarrow> string \<Rightarrow> TrademarkSearchResult list \<Rightarrow> TextResult list" where
  "analyzeTextSimilarity svc target trademarks =
     (let targetNormalized = normalizeText target in
      filter (\<lambda>r. overall (text_similarity r) \<ge> textSimilarity (thresholds svc))
        (map (\<lambda>trademark.
               \<lparr>text_trademark = trademark,
                text_similarity =
                  textSimilarity_of targetNormalized (normalizeText (text_trademarkName trademark))\<rparr>)
           trademarks))"

text \<open>\<^verbatim>\<open>uraianBarangJasa || trademarkData?.uraianBarangJasa || ''\<close>.\<close>

definition desc_description :: "TrademarkSearchResult \<Rightarrow> string" where
  "desc_description trademark =
     str_of
       (js_or (TrademarkSearchResult_prop trademark ''uraianBarangJasa'')
         (js_or (TrademarkData_prop (trademarkData trademark) ''uraianBarangJasa'') (Some [])))"

text \<open>The loop of \<^verbatim>\<open>analyzeDescriptionSimilarity\<close>: one provider call for each trademark
  with a non-blank description; an error thrown by the cosine ends the loop.\<close>

fun desc_loop ::
  "SimilarityService \<Rightarrow> Env \<Rightarrow> real list \<Rightarrow> TrademarkSearchResult list \<Rightarrow> World
     \<Rightarrow> (error + DescResult list) \<times> World" where
  "desc_loop svc env targetEmbedding [] w = (Inr [], w)"
| "desc_loop svc env targetEmbedding (trademark # rest) w =
     (let description = desc_description trademark in
      if length (trim description) > 0 then
        (case generateEmbedding env description w of (descEmbedding, w1) \<Rightarrow>
           (case calculateCosineSimilarity targetEmbedding descEmbedding of
              Inl e \<Rightarrow> (Inl e, w1)
            | Inr semanticScore \<Rightarrow>
                (case desc_loop svc env targetEmbedding rest w1 of
                   (Inl e, w2) \<Rightarrow> (Inl e, w2)
                 | (Inr results, w2) \<Rightarrow>
                     (Inr ((if nan_ge semanticScore (semanticSimilarity (thresholds svc))
                            then [\<lparr>desc_trademark = trademark,
                                   desc_similarity =
                                     \<lparr>semantic = the semanticScore,
                                      description = take 200 description @ ''...''\<rparr>\<rparr>]
                            else []) @ results), w2))))
      else desc_loop svc env targetEmbedding rest w)"

definition analyzeDescriptionSimilarity ::
  "SimilarityService \<Rightarrow> Env \<Rightarrow> string \<Rightarrow> TrademarkSearchResult list \<Rightarrow> World
     \<Rightarrow> (error + DescResult list) \<times> World" where
  "analyzeDescriptionSimilarity svc env target trademarks w =
     (case generateEmbedding env target w of (targetEmbedding, w1) \<Rightarrow>
        desc_loop svc env targetEmbedding trademarks w1)"

text \<open>\<^verbatim>\<open>generatePhoneticCode(text)\<close>: the substitution table, then
  \<^verbatim>\<open>replace(/(.)\1+/g, '$1')\<close> (the dot does not match a line break).\<close>

definition phoneticMap :: "char \<Rightarrow> string" where
  "phoneticMap c =
     (case map_of [(CHR ''c'', ''k''), (CHR ''q'', ''k''), (CHR ''x'', ''ks''),
                   (CHR ''f'', ''p''), (CHR ''v'', ''p''),
                   (CHR ''j'', ''y''), (CHR ''z'', ''s'')] c of
        Some s \<Rightarrow> s | None \<Rightarrow> [c])"

fun collapse_runs :: "string \<Rightarrow> string" where
  "collapse_runs (x # y # zs) =
     (if x = y \<and> (of_char x :: nat) \<noteq> 10 \<and> (of_char x :: nat) \<noteq> 13
      then collapse_runs (y # zs) else x # collapse_runs (y # zs))"
| "collapse_runs xs = xs"

definition generatePhoneticCode :: "string \<Rightarrow> string" where
  "generatePhoneticCode text = collapse_runs (concat (map phoneticMap (normalizeText text)))"

definition calculatePhoneticSimilarity :: "string \<Rightarrow> string \<Rightarrow> real" where
  "calculatePhoneticSimilarity phonetic1 phonetic2 = calculateLevenshteinSimilarity phonetic1 phonetic2"

definition analyzePhoneticSimilarity ::
  "SimilarityService \<Rightarrow> string \<Rightarrow> TrademarkSearchResult list \<Rightarrow> PhonResult list" where
  "analyzePhoneticSimilarity svc target trademarks =
     (let targetPhonetic = generatePhoneticCode target in
      filter (\<lambda>r. phon_score (phon_similarity r) \<ge> phoneticSimilarity (thresholds svc))
        (map (\<lambda>trademark.
               (let trademarkName =
                      str_of (js_or (TrademarkSearchResult_prop trademark ''namaMerek'') (Some []));
                    trademarkPhonetic = generatePhoneticCode trademarkName
                in \<lparr>phon_trademark = trademark,
                    phon_similarity =
                      \<lparr>phon_score = calculatePhoneticSimilarity targetPhonetic trademarkPhonetic,
                       targetPhonetic = targetPhonetic,
                       trademarkPhonetic = trademarkPhonetic\<rparr>\<rparr>))
           trademarks))"

section \<open>Fusion (combineAndScoreResults)\<close>

record CombinedItem =
  trademark :: TrademarkSearchResult
  textSimilarityC :: "TextSimilarity option"
  descriptionSimilarityC :: "DescriptionSimilarity option"
  phoneticSimilarityC :: "PhoneticSimilarity option"

record SimilarityBreakdown =
  breakdown_text :: real
  breakdown_description :: real
  breakdown_phonetic :: real

record SimilarityResult = CombinedItem +
  overallScore :: real
  similarityBreakdown :: SimilarityBreakdown

text \<open>The key of the map: \<^verbatim>\<open>nomorPermohonan || id || sourceDocument\<close>.\<close>

definition combine_key :: "TrademarkSearchResult \<Rightarrow> string option" where
  "combine_key t =
     js_or (TrademarkSearchResult_prop t ''nomorPermohonan'')
       (js_or (TrademarkSearchResult_prop t ''id'') (TrademarkSearchResult_prop t ''sourceDocument''))"

text \<open>
  \<^verbatim>\<open>combinedMap\<close> is a JavaScript \<^verbatim>\<open>Map\<close>: an association list in insertion order.
  \<^verbatim>\<open>set\<close> on a present key replaces the value in place and on a new key appends
  (\<^const>\<open>AList.update\<close>); \<^verbatim>\<open>has\<close> is a lookup; assigning a field of \<^verbatim>\<open>get(key)\<close> changes
  the stored entry (\<^const>\<open>AList.map_entry\<close>).
\<close>

type_synonym combinedMap = "(string option \<times> CombinedItem) list"

definition combine_text :: "TextResult \<Rightarrow> combinedMap \<Rightarrow> combinedMap" where
  "combine_text result m =
     AList.update (combine_key (text_trademark result))
       \<lparr>trademark = text_trademark result,
        textSimilarityC = Some (text_similarity result),
        descriptionSimilarityC = None,
        phoneticSimilarityC = None\<rparr> m"

definition combine_desc :: "DescResult \<Rightarrow> combinedMap \<Rightarrow> combinedMap" where
  "combine_desc result m =
     (let key = combine_key (desc_trademark result) in
      if map_of m key \<noteq> None
      then AList.map_entry key (\<lambda>item. item\<lparr>descriptionSimilarityC := Some (desc_similarity result)\<rparr>) m
      else AList.update key
             \<lparr>trademark = desc_trademark result,
              textSimilarityC = None,
              descriptionSimilarityC = Some (desc_similarity result),
              phoneticSimilarityC = None\<rparr> m)"

definition combine_phon :: "PhonResult \<Rightarrow> combinedMap \<Rightarrow> combinedMap" where
  "combine_phon result m =
     (let key = combine_key (phon_trademark result) in
      if map_of m key \<noteq> None
      then AList.map_entry key (\<lambda>item. item\<lparr>phoneticSimilarityC := Some (phon_similarity result)\<rparr>) m
      else AList.update key
             \<lparr>trademark = phon_trademark result,
              textSimilarityC = None,
              descriptionSimilarityC = None,
              phoneticSimilarityC = Some (phon_similarity result)\<rparr> m)"

text \<open>The scoring of one entry: an absent component counts as 0
  (\<^verbatim>\<open>item.textSimilarity?.overall || 0\<close>).\<close>

definition score_item :: "CombinedItem \<Rightarrow> SimilarityResult" where
  "score_item item =
     (let textScore = (case textSimilarityC item of None \<Rightarrow> 0 | Some t \<Rightarrow> overall t);
          descScore = (case descriptionSimilarityC item of None \<Rightarrow> 0 | Some d \<Rightarrow> semantic d);
          phoneticScore = (case phoneticSimilarityC item of None \<Rightarrow> 0 | Some p \<Rightarrow> phon_score p);
          overallScore = textScore * 0.4 + descScore * 0.3 + phoneticScore * 0.3
      in CombinedItem.extend item
           \<lparr>overallScore = overallScore,
            similarityBreakdown =
              \<lparr>breakdown_text = textScore, breakdown_description = descScore,
               breakdown_phonetic = phoneticScore\<rparr>\<rparr>)"

definition combinedMap_of :: "TextResult list \<Rightarrow> DescResult list \<Rightarrow> PhonResult list \<Rightarrow> combinedMap" where
  "combinedMap_of textResults descResults phoneticResults =
     fold combine_phon phoneticResults (fold combine_desc descResults (fold combine_text textResults []))"

definition combineAndScoreResults ::
  "string \<Rightarrow> TextResult list \<Rightarrow> DescResult list \<Rightarrow> PhonResult list \<Rightarrow> SimilarityResult list" where
  "combineAndScoreResults target textResults descResults phoneticResults =
     map (\<lambda>(key, item). score_item item) (combinedMap_of textResults descResults phoneticResults)"

section \<open>The analysis (analyzeSimilarity)\<close>

record Options =
  topK :: "int option"
  includePhonetic :: "bool option"
  includeVisual :: "bool option"
  dateRange :: "DateRange option"

record AnalysisResult =
  targetTrademark :: string
  totalCompared :: nat
  similarTrademarks :: "SimilarityResult list"
  options_topK :: int
  options_includePhonetic :: bool
  options_includeVisual :: bool
  options_dateRange :: "DateRange option"

text \<open>\<^verbatim>\<open>getAllTrademarks(dateRange)\<close>: \<^verbatim>\<open>vectorService.search\<close> embeds the fixed query text and
  queries the index; an error of the index is thrown on to the caller.\<close>

definition getAllTrademarks ::
  "Env \<Rightarrow> DateRange option \<Rightarrow> World \<Rightarrow> (error + TrademarkSearchResult list) \<times> World" where
  "getAllTrademarks env dr w =
     (case generateEmbedding env ''trademark brand'' w of (queryEmbedding, w1) \<Rightarrow>
        (case index_query env queryEmbedding dr of
           Inl message \<Rightarrow> (Inl (IndexError message), w1)
         | Inr trademarks \<Rightarrow> (Inr trademarks, w1)))"

text \<open>\<^verbatim>\<open>xs.slice(0, k)\<close> for an integer \<open>k\<close>: a negative \<open>k\<close> counts from the end.\<close>

definition slice0 :: "'a list \<Rightarrow> int \<Rightarrow> 'a list" where
  "slice0 xs k = (if k < 0 then take (nat (int (length xs) + k)) xs else take (nat k) xs)"

text \<open>\<^verbatim>\<open>filter\<close>, \<^verbatim>\<open>sort((a, b) => b.overallScore - a.overallScore)\<close> (a stable sort, largest
  score first) and \<^verbatim>\<open>slice(0, topK)\<close>.\<close>

definition filter_sort_slice :: "real \<Rightarrow> int \<Rightarrow> SimilarityResult list \<Rightarrow> SimilarityResult list" where
  "filter_sort_slice threshold k combinedResults =
     slice0 (sort_key (\<lambda>r. - overallScore r)
               (filter (\<lambda>result. overallScore result \<ge> threshold) combinedResults)) k"

definition analyzeSimilarity ::
  "SimilarityService \<Rightarrow> Env \<Rightarrow> string \<Rightarrow> Options \<Rightarrow> World \<Rightarrow> (error + AnalysisResult) \<times> World" where
  "analyzeSimilarity svc env target opts w =
     (let topK' = (case topK opts of None \<Rightarrow> 20 | Some k \<Rightarrow> k);
          includePhonetic' = (case includePhonetic opts of None \<Rightarrow> True | Some b \<Rightarrow> b);
          includeVisual' = (case includeVisual opts of None \<Rightarrow> False | Some b \<Rightarrow> b)
      in case getAllTrademarks env (dateRange opts) w of
           (Inl e, w1) \<Rightarrow> (Inl e, w1)
         | (Inr allTrademarks, w1) \<Rightarrow>
             (let textSimilarityResults = analyzeTextSimilarity svc target allTrademarks in
              case analyzeDescriptionSimilarity svc env target allTrademarks w1 of
                (Inl e, w2) \<Rightarrow> (Inl e, w2)
              | (Inr descriptionSimilarityResults, w2) \<Rightarrow>
                  (let phoneticSimilarityResults =
                         (if includePhonetic' then analyzePhoneticSimilarity svc target allTrademarks
                          else []);
                       combinedResults =
                         combineAndScoreResults target textSimilarityResults
                           descriptionSimilarityResults phoneticSimilarityResults;
                       filteredResults =
                         filter_sort_slice (overallSimilarity (thresholds svc)) topK' combinedResults
                   in (Inr \<lparr>targetTrademark = target,
                            totalCompared = length allTrademarks,
                            similarTrademarks = filteredResults,
                            options_topK = topK',
                            options_includePhonetic = includePhonetic',
                            options_includeVisual = includeVisual',
                            options_dateRange = dateRange opts\<rparr>, w2))))"

section \<open>The analysis endpoint (similarityController.js)\<close>

text \<open>The request body of \<^verbatim>\<open>POST /analyze\<close>. The schema requires a trademark of 1 to 200
  characters and, when given, an integer \<open>topK\<close> from 1 to 50; it fills in the defaults of
  an options object that is present and replaces an absent one by the empty object. The
  check of the two dates of a range (ISO format or empty) is a parameter; an absent date
  is the empty string.\<close>

record AnalyzeBody =
  trademarkB :: "string option"
  optionsB :: "Options option"

definition analyze_schema :: "(string \<Rightarrow> bool) \<Rightarrow> AnalyzeBody \<Rightarrow> (string \<times> Options) option" where
  "analyze_schema isoDate body =
     (case trademarkB body of
        None \<Rightarrow> None
      | Some t \<Rightarrow>
          if \<not> (1 \<le> length t \<and> length t \<le> 200) then None
          else
            (case optionsB body of
               None \<Rightarrow> Some (t, \<lparr>topK = None, includePhonetic = None,
                                 includeVisual = None, dateRange = None\<rparr>)
             | Some opts \<Rightarrow>
                 if (case topK opts of None \<Rightarrow> True | Some k \<Rightarrow> 1 \<le> k \<and> k \<le> 50)
                    \<and> (case dateRange opts of None \<Rightarrow> True
                        | Some dr \<Rightarrow> (range_start dr = [] \<or> isoDate (range_start dr))
                                   \<and> (range_end dr = [] \<or> isoDate (range_end dr)))
                 then Some (t, \<lparr>topK = Some (case topK opts of None \<Rightarrow> 20 | Some k \<Rightarrow> k),
                                includePhonetic = Some (case includePhonetic opts of None \<Rightarrow> True | Some b \<Rightarrow> b),
                                includeVisual = Some (case includeVisual opts of None \<Rightarrow> False | Some b \<Rightarrow> b),
                                dateRange = dateRange opts\<rparr>)
                 else None))"

datatype 'a http = Http400 | Http500 error | Http200 'a

definition controller_analyzeSimilarity ::
  "(string \<Rightarrow> bool) \<Rightarrow> SimilarityService \<Rightarrow> Env \<Rightarrow> AnalyzeBody \<Rightarrow> World \<Rightarrow> AnalysisResult http \<times> World" where
  "controller_analyzeSimilarity isoDate svc env body w =
     (case analyze_schema isoDate body of
        None \<Rightarrow> (Http400, w)
      | Some (t, opts) \<Rightarrow>
          (case analyzeSimilarity svc env t opts w of
             (Inl e, w1) \<Rightarrow> (Http500 e, w1)
           | (Inr result, w1) \<Rightarrow> (Http200 result, w1)))"

section \<open>The threshold endpoint (similarityController.js)\<close>

text \<open>
  The \<^verbatim>\<open>thresholds\<close> object of an update request body: each of the four keys is either
  absent (\<open>None\<close>) or carries a number. The body itself may lack the object.
\<close>

record ThresholdsBody =
  textSimilarityB :: "real option"
  phoneticSimilarityB :: "real option"
  semanticSimilarityB :: "real option"
  overallSimilarityB :: "real option"

record UpdateBody =
  thresholdsB :: "ThresholdsBody option"

text \<open>\<^verbatim>\<open>Joi.number().min(0).max(1)\<close> on an optional key.\<close>

definition joi_unit_number :: "real option \<Rightarrow> bool" where
  "joi_unit_number v = (case v of None \<Rightarrow> True | Some x \<Rightarrow> 0 \<le> x \<and> x \<le> 1)"

text \<open>The schema of \<^verbatim>\<open>updateThresholds\<close>: the object is required, its keys are optional.\<close>

definition schema_validate :: "UpdateBody \<Rightarrow> ThresholdsBody option" where
  "schema_validate body =
     (case thresholdsB body of
        None \<Rightarrow> None
      | Some t \<Rightarrow>
          if joi_unit_number (textSimilarityB t) \<and> joi_unit_number (phoneticSimilarityB t)
             \<and> joi_unit_number (semanticSimilarityB t) \<and> joi_unit_number (overallSimilarityB t)
          then Some t else None)"

text \<open>\<^verbatim>\<open>Object.assign(similarityService.thresholds, thresholds)\<close>: own keys of the source
  overwrite the target, the other keys of the target stay.\<close>

definition object_assign :: "Thresholds \<Rightarrow> ThresholdsBody \<Rightarrow> Thresholds" where
  "object_assign th t =
     \<lparr>textSimilarity = (case textSimilarityB t of Some v \<Rightarrow> v | None \<Rightarrow> textSimilarity th),
      phoneticSimilarity = (case phoneticSimilarityB t of Some v \<Rightarrow> v | None \<Rightarrow> phoneticSimilarity th),
      semanticSimilarity = (case semanticSimilarityB t of Some v \<Rightarrow> v | None \<Rightarrow> semanticSimilarity th),
      overallSimilarity = (case overallSimilarityB t of Some v \<Rightarrow> v | None \<Rightarrow> overallSimilarity th)\<rparr>"

text \<open>\<^verbatim>\<open>updateThresholds(req, res)\<close>: the response and the service afterwards. A body that
  fails the schema is answered with status 400 before the service is touched.\<close>

definition updateThresholds :: "SimilarityService \<Rightarrow> UpdateBody \<Rightarrow> Thresholds http \<times> SimilarityService" where
  "updateThresholds svc body =
     (case schema_validate body of
        None \<Rightarrow> (Http400, svc)
      | Some t \<Rightarrow>
          (let svc' = svc\<lparr>thresholds := object_assign (thresholds svc) t\<rparr>
           in (Http200 (thresholds svc'), svc')))"

section \<open>Regular expressions\<close>

text \<open>
  The regular-expression engine of the runtime is a parameter of the parser and of the
  chunker. A pattern is named by its place in the source: \<open>TablePattern f i\<close> is
  \<^verbatim>\<open>TRADEMARK_PATTERNS[f][i]\<close>, \<open>Inline n\<close> is the pattern literal that the source writes at
  \<open>n\<close>. \<open>re_match\<close> is \<^verbatim>\<open>str.match(re)\<close> for a pattern without the flag \<^verbatim>\<open>g\<close> (the groups
  of the first match, \<open>None\<close> for a group that did not take part), \<open>re_matchAll\<close> gives the
  index and the groups of every match of a pattern with the flag, \<open>re_split\<close> is
  \<^verbatim>\<open>str.split(re)\<close> and \<open>re_delete\<close> is \<^verbatim>\<open>str.replace(re, '')\<close>.
\<close>

datatype regex = TablePattern string nat | Inline string

record RegExp =
  re_match :: "regex \<Rightarrow> string \<Rightarrow> string option list option"
  re_matchAll :: "regex \<Rightarrow> string \<Rightarrow> (nat \<times> string option list) list"
  re_split :: "regex \<Rightarrow> string \<Rightarrow> string list"
  re_delete :: "regex \<Rightarrow> string \<Rightarrow> string"

definition group :: "string option list \<Rightarrow> nat \<Rightarrow> string option" where
  "group m n = (if n < length m then m ! n else None)"

text \<open>A group inside a template literal: \<^verbatim>\<open>undefined\<close> prints as its name.\<close>

definition tpl :: "string option \<Rightarrow> string" where
  "tpl g = (case g of None \<Rightarrow> ''undefined'' | Some s \<Rightarrow> s)"

section \<open>The parser (trademarkParserService.js)\<close>

text \<open>\<^verbatim>\<open>TRADEMARK_PATTERNS\<close>: the fields in the order of the object literal, each with the
  number of its patterns.\<close>

definition TRADEMARK_PATTERNS :: "(string \<times> regex list) list" where
  "TRADEMARK_PATTERNS =
     map (\<lambda>(f, n). (f, map (TablePattern f) [0..<n]))
       [(''nomorPermohonan'', 4), (''tanggalPenerimaan'', 3), (''namaPemohon'', 4),
        (''namaReferensiLabelMerek'', 5), (''kelasBarangJasa'', 6), (''uraianBarangJasa'', 3),
        (''tipeMerek'', 3), (''uraianWarna'', 3), (''artiBahasa'', 3),
        (''alamatPemohon'', 3), (''namaKuasa'', 3), (''alamatKuasa'', 2)]"

record TrademarkParserService =
  patterns :: "(string \<times> regex list) list"

definition TrademarkParserService_constructor :: TrademarkParserService where
  "TrademarkParserService_constructor = \<lparr>patterns = TRADEMARK_PATTERNS\<rparr>"

text \<open>\<^verbatim>\<open>replace(/\s*:\s*$/, '')\<close>: a last colon that only white space follows is removed
  together with the white space around it.\<close>

definition strip_trailing_colon :: "string \<Rightarrow> string" where
  "strip_trailing_colon text =
     (case dropWhile is_space (rev text) of
        [] \<Rightarrow> text
      | c # r \<Rightarrow> if c = CHR '':'' then rev (dropWhile is_space r) else text)"

definition is_linebreak :: "char \<Rightarrow> bool" where
  "is_linebreak c = ((of_char c :: nat) = 10 \<or> (of_char c :: nat) = 13)"

definition cleanExtractedText :: "string \<Rightarrow> string" where
  "cleanExtractedText text =
     (if text = [] then []
      else trim (strip_trailing_colon (collapse_class is_linebreak (collapse_ws (trim text)))))"

text \<open>\<^verbatim>\<open>isValidTrademark(trademarkData)\<close> for a non-null argument.\<close>

definition isValidTrademark :: "TrademarkData \<Rightarrow> bool" where
  "isValidTrademark td = isValid td"

text \<open>\<^verbatim>\<open>extractFieldsFromContext(context, applicationNumber, pageNumber)\<close>: six patterns fill
  \<^verbatim>\<open>extractedData\<close>; the object handed to the constructor also carries \<^verbatim>\<open>pageNumber\<close> (a
  number) and \<^verbatim>\<open>extractionMethod: 'enhanced-page-based'\<close>.\<close>

definition context_field :: "RegExp \<Rightarrow> string \<Rightarrow> string \<Rightarrow> string option" where
  "context_field rx context field =
     (case re_match rx (Inline (''extractFieldsFromContext.'' @ field)) context of
        None \<Rightarrow> None
      | Some m \<Rightarrow> if truthy (group m 1) then Some (cleanExtractedText (str_of (group m 1))) else None)"

definition extractFieldsFromContext :: "RegExp \<Rightarrow> string \<Rightarrow> string \<Rightarrow> nat \<Rightarrow> TrademarkData" where
  "extractFieldsFromContext rx context applicationNumber pageNumber =
     TrademarkData_new
       (map_of
          [(''nomorPermohonan'', applicationNumber),
           (''namaPemohon'', str_of (js_or (context_field rx context ''applicantName'') (Some []))),
           (''namaReferensiLabelMerek'', str_of (js_or (context_field rx context ''trademarkName'') (Some []))),
           (''tanggalPenerimaan'', str_of (js_or (context_field rx context ''receptionDate'') (Some []))),
           (''kelasBarangJasa'', str_of (js_or (context_field rx context ''goodsClass'') (Some []))),
           (''alamatPemohon'', str_of (js_or (context_field rx context ''address'') (Some []))),
           (''tipeMerek'', str_of (js_or (context_field rx context ''trademarkType'') (Some []))),
           (''extractionMethod'', ''enhanced-page-based'')])"

record PageChunk =
  content :: string
  pageNumber :: nat
  hasTrademarkData :: bool

text \<open>\<^verbatim>\<open>parsePageChunk(pageChunk, pageIndex)\<close>: every match of the application-number anchor
  gives a context window of 500 characters before and 1000 after its start.\<close>

definition parsePageChunk :: "RegExp \<Rightarrow> PageChunk \<Rightarrow> TrademarkData list" where
  "parsePageChunk rx pageChunk =
     filter isValidTrademark
       (map (\<lambda>(matchIndex, appMatch).
              (let applicationNumber = trim (str_of (group appMatch 1));
                   contextStart = matchIndex - 500;
                   contextEnd = min (length (content pageChunk)) (matchIndex + 1000);
                   context = take (contextEnd - contextStart) (drop contextStart (content pageChunk))
               in extractFieldsFromContext rx context applicationNumber (pageNumber pageChunk)))
         (re_matchAll rx (Inline ''djkiPatterns.applicationNumber'') (content pageChunk)))"

text \<open>\<^verbatim>\<open>deduplicateTrademarks(trademarks)\<close>: the key is the property \<^verbatim>\<open>applicationNumber\<close> of
  each record, \<open>seen\<close> the set of keys met so far.\<close>

fun dedup_loop ::
  "TrademarkData list \<Rightarrow> string option list \<Rightarrow> TrademarkData list \<Rightarrow> TrademarkData list" where
  "dedup_loop [] seen unique = unique"
| "dedup_loop (tm # rest) seen unique =
     (let key = TrademarkData_prop tm ''applicationNumber'' in
      if key \<notin> set seen then dedup_loop rest (key # seen) (unique @ [tm])
      else dedup_loop rest seen unique)"

definition deduplicateTrademarks :: "TrademarkData list \<Rightarrow> TrademarkData list" where
  "deduplicateTrademarks trademarks = dedup_loop trademarks [] []"

text \<open>\<^verbatim>\<open>splitIntoSections(text)\<close>: six separators in turn, parts of at most 20 characters
  dropped after each, sections of at most 50 characters dropped at the end.\<close>

definition sectionSeparators :: "regex list" where
  "sectionSeparators = map (\<lambda>i. Inline (''sectionSeparators.'' @ [char_of (48 + i)])) [0..<6]"

definition splitIntoSections :: "RegExp \<Rightarrow> string \<Rightarrow> string list" where
  "splitIntoSections rx text =
     filter (\<lambda>section. length (trim section) > 50)
       (fold (\<lambda>pattern sections.
                concat (map (\<lambda>section. filter (\<lambda>part. length (trim part) > 20)
                                          (re_split rx pattern section)) sections))
          sectionSeparators [text])"

text \<open>The pattern loop of \<^verbatim>\<open>parseSection\<close>: it ends at the first pattern that matches.\<close>

fun first_match :: "RegExp \<Rightarrow> regex list \<Rightarrow> string \<Rightarrow> string option list option" where
  "first_match rx [] section = None"
| "first_match rx (pattern # rest) section =
     (case re_match rx pattern section of
        None \<Rightarrow> first_match rx rest section
      | Some m \<Rightarrow> Some m)"

definition extract_entry ::
  "RegExp \<Rightarrow> string \<Rightarrow> string \<times> regex list \<Rightarrow> (string \<Rightarrow> string option) \<Rightarrow> (string \<Rightarrow> string option)" where
  "extract_entry rx section entry extractedData =
     (case entry of (field, pats) \<Rightarrow>
        (case first_match rx pats section of
           None \<Rightarrow> extractedData
         | Some m \<Rightarrow>
             if truthy (group m 1) then
               (if field = ''tanggalPenerimaan'' \<and> length m > 3
                then extractedData(field \<mapsto>
                       tpl (group m 1) @ ''/'' @ tpl (group m 2) @ ''/'' @ tpl (group m 3) @ '' ''
                         @ tpl (group m 4) @ '':'' @ tpl (group m 5) @ '':'' @ tpl (group m 6))
                else extractedData(field \<mapsto> cleanExtractedText (str_of (group m 1))))
             else extractedData))"

definition extractAddress :: "RegExp \<Rightarrow> string \<Rightarrow> string \<Rightarrow> string" where
  "extractAddress rx text type =
     (if type \<noteq> ''pemohon'' \<and> type \<noteq> ''kuasa'' then []
      else
        (case re_match rx (Inline (''addressPatterns.'' @ type)) text of
           None \<Rightarrow> []
         | Some m \<Rightarrow> if truthy (group m 1) then cleanExtractedText (str_of (group m 1)) else []))"

fun extractPriority_loop :: "RegExp \<Rightarrow> regex list \<Rightarrow> string \<Rightarrow> string" where
  "extractPriority_loop rx [] text = []"
| "extractPriority_loop rx (pattern # rest) text =
     (case re_match rx pattern text of
        None \<Rightarrow> extractPriority_loop rx rest text
      | Some m \<Rightarrow>
          if truthy (group m 1) then cleanExtractedText (str_of (group m 1))
          else extractPriority_loop rx rest text)"

definition extractPriority :: "RegExp \<Rightarrow> string \<Rightarrow> string" where
  "extractPriority rx text =
     extractPriority_loop rx [Inline ''priorityPatterns.0'', Inline ''priorityPatterns.1''] text"

fun extractLanguageMeaning_loop :: "RegExp \<Rightarrow> regex list \<Rightarrow> string \<Rightarrow> string" where
  "extractLanguageMeaning_loop rx [] text = []"
| "extractLanguageMeaning_loop rx (pattern # rest) text =
     (case re_match rx pattern text of
        None \<Rightarrow> extractLanguageMeaning_loop rx rest text
      | Some m \<Rightarrow>
          if truthy (group m 1) then cleanExtractedText (str_of (group m 1))
          else ''Tidak Ada Terjemahan'')"

definition extractLanguageMeaning :: "RegExp \<Rightarrow> string \<Rightarrow> string" where
  "extractLanguageMeaning rx text =
     extractLanguageMeaning_loop rx [Inline ''meaningPatterns.0'', Inline ''meaningPatterns.1''] text"

text \<open>The clean-up and completion steps of \<^verbatim>\<open>parseSection\<close>, each on the map
  \<^verbatim>\<open>extractedData\<close>.\<close>

definition update_if_truthy ::
  "string \<Rightarrow> (string \<Rightarrow> string) \<Rightarrow> (string \<Rightarrow> string option) \<Rightarrow> (string \<Rightarrow> string option)" where
  "update_if_truthy field f extractedData =
     (if truthy (extractedData field) then extractedData(field \<mapsto> f (str_of (extractedData field)))
      else extractedData)"

definition fill_if_falsy ::
  "string \<Rightarrow> string \<Rightarrow> (string \<Rightarrow> string option) \<Rightarrow> (string \<Rightarrow> string option)" where
  "fill_if_falsy field v extractedData =
     (if \<not> truthy (extractedData field) then extractedData(field \<mapsto> v) else extractedData)"

definition parseSection :: "TrademarkParserService \<Rightarrow> RegExp \<Rightarrow> string \<Rightarrow> TrademarkData" where
  "parseSection svc rx section =
     (let e0 = fold (extract_entry rx section) (patterns svc) Map.empty;
          e1 = update_if_truthy ''namaReferensiLabelMerek''
                 (\<lambda>v. trim (re_delete rx (Inline ''parseSection.trailingNumbers'')
                          (re_delete rx (Inline ''parseSection.merekKata'')
                             (re_delete rx (Inline ''parseSection.leadingColon'') v)))) e0;
          e2 = update_if_truthy ''namaPemohon'' cleanExtractedText e1;
          e3 = update_if_truthy ''namaReferensiLabelMerek'' cleanExtractedText e2;
          e4 = update_if_truthy ''uraianBarangJasa''
                 (\<lambda>v. trim (re_delete rx (Inline ''parseSection.afterSemicolon'')
                          (re_delete rx (Inline ''parseSection.colorPrefix'') v))) e3;
          e5 = fill_if_falsy ''alamatPemohon'' (extractAddress rx section ''pemohon'') e4;
          e6 = fill_if_falsy ''alamatKuasa'' (extractAddress rx section ''kuasa'') e5;
          e7 = fill_if_falsy ''prioritas'' (extractPriority rx section) e6;
          e8 = fill_if_falsy ''artiBahasa'' (extractLanguageMeaning rx section) e7
      in TrademarkData_new e8)"

text \<open>\<^verbatim>\<open>extractTrademarkData(text)\<close>, the traditional pass over the whole text.\<close>

definition extractTrademarkData :: "TrademarkParserService \<Rightarrow> RegExp \<Rightarrow> string \<Rightarrow> TrademarkData list" where
  "extractTrademarkData svc rx text =
     filter isValidTrademark (map (parseSection svc rx) (splitIntoSections rx text))"

text \<open>
  \<^verbatim>\<open>parseTrademarkDataEnhanced(pageChunks, fullText)\<close>. The second component counts the
  runs of the traditional pass (each run logs its own line).
\<close>

definition page_based_trademarks :: "RegExp \<Rightarrow> PageChunk list \<Rightarrow> TrademarkData list" where
  "page_based_trademarks rx pageChunks =
     (let trademarkPages = filter hasTrademarkData pageChunks;
          pageResults = map (parsePageChunk rx) trademarkPages
      in filter isValidTrademark (concat pageResults))"

definition parseTrademarkDataEnhanced ::
  "TrademarkParserService \<Rightarrow> RegExp \<Rightarrow> PageChunk list \<Rightarrow> string \<Rightarrow> TrademarkData list \<times> nat" where
  "parseTrademarkDataEnhanced svc rx pageChunks fullText =
     (let trademarks = page_based_trademarks rx pageChunks in
      if length trademarks = 0 then (extractTrademarkData svc rx fullText, 1)
      else (deduplicateTrademarks trademarks, 0))"

section \<open>The chunker (documentService.js)\<close>

record DocumentService =
  chunkSize :: int
  chunkOverlap :: int

text \<open>\<^verbatim>\<open>constructor()\<close>: 2000 characters to a chunk, 400 of overlap.\<close>

definition DocumentService_constructor :: DocumentService where
  "DocumentService_constructor = \<lparr>chunkSize = 2000, chunkOverlap = 400\<rparr>"

text \<open>\<^verbatim>\<open>s.slice(a, b)\<close> and \<^verbatim>\<open>s.substring(a, b)\<close> on integers.\<close>

definition js_slice :: "string \<Rightarrow> int \<Rightarrow> int \<Rightarrow> string" where
  "js_slice s a b =
     (let len = int (length s);
          from = (if a < 0 then max (len + a) 0 else min a len);
          to = (if b < 0 then max (len + b) 0 else min b len)
      in take (nat (to - from)) (drop (nat from) s))"

definition js_substring :: "string \<Rightarrow> int \<Rightarrow> int \<Rightarrow> string" where
  "js_substring s a b =
     (let len = int (length s);
          a' = min (max a 0) len;
          b' = min (max b 0) len;
          from = min a' b';
          to = max a' b'
      in take (nat (to - from)) (drop (nat from) s))"

text \<open>\<^verbatim>\<open>text.lastIndexOf(c, fromIndex)\<close> for a single character: the largest index not above
  \<open>fromIndex\<close> that carries \<open>c\<close>, or \<open>-1\<close>.\<close>

fun last_index_upto :: "string \<Rightarrow> char \<Rightarrow> nat \<Rightarrow> int" where
  "last_index_upto text c 0 = (if text \<noteq> [] \<and> text ! 0 = c then 0 else - 1)"
| "last_index_upto text c (Suc n) =
     (if Suc n < length text \<and> text ! Suc n = c then int (Suc n) else last_index_upto text c n)"

definition lastIndexOf :: "string \<Rightarrow> char \<Rightarrow> int \<Rightarrow> int" where
  "lastIndexOf text c fromIndex = last_index_upto text c (nat (max fromIndex 0))"

text \<open>\<^verbatim>\<open>splitLargeTrademarkEntry(text)\<close>: the sections between field codes are packed into
  chunks of at most \<^verbatim>\<open>chunkSize\<close> characters.\<close>

fun pack_sections :: "DocumentService \<Rightarrow> string list \<Rightarrow> string \<Rightarrow> string list \<Rightarrow> string list \<times> string" where
  "pack_sections ds [] currentChunk chunks = (chunks, currentChunk)"
| "pack_sections ds (sec # rest) currentChunk chunks =
     (if int (length currentChunk) + int (length sec) > chunkSize ds \<and> currentChunk \<noteq> []
      then pack_sections ds rest sec (chunks @ [trim currentChunk])
      else pack_sections ds rest
             (currentChunk @ (if currentChunk \<noteq> [] then '' '' else []) @ sec) chunks)"

definition splitLargeTrademarkEntry :: "RegExp \<Rightarrow> DocumentService \<Rightarrow> string \<Rightarrow> string list" where
  "splitLargeTrademarkEntry rx ds text =
     (case pack_sections ds (re_split rx (Inline ''splitLargeTrademarkEntry.fieldCode'') text) [] [] of
        (chunks, currentChunk) \<Rightarrow>
          filter (\<lambda>chunk. length chunk > 50)
            (if trim currentChunk \<noteq> [] then chunks @ [trim currentChunk] else chunks))"

text \<open>\<^verbatim>\<open>createSemanticChunks(text)\<close>: \<open>ms\<close> are the matches of the application-number pattern
  from the current one on, each with its position.\<close>

fun semantic_loop ::
  "RegExp \<Rightarrow> DocumentService \<Rightarrow> string \<Rightarrow> (nat \<times> string option list) list \<Rightarrow> string list" where
  "semantic_loop rx ds text [] = []"
| "semantic_loop rx ds text (currentMatch # ms) =
     (let startPos = max 0 (int (fst currentMatch) - 200);
          endPos = (case ms of [] \<Rightarrow> int (length text) | nextMatch # _ \<Rightarrow> int (fst nextMatch));
          chunkText = trim (js_substring text startPos endPos)
      in (if int (length chunkText) > chunkSize ds * 2 then splitLargeTrademarkEntry rx ds chunkText
          else if length chunkText > 100 then [chunkText]
          else []) @ semantic_loop rx ds text ms)"

definition createSemanticChunks :: "RegExp \<Rightarrow> DocumentService \<Rightarrow> string \<Rightarrow> string list" where
  "createSemanticChunks rx ds text =
     semantic_loop rx ds text (re_matchAll rx (Inline ''createSemanticChunks.applicationNumberPattern'') text)"

text \<open>The end of the window that starts at \<open>start\<close>: \<open>start + chunkSize\<close>, moved back to the
  last sentence end or else the last blank when that lies past the middle of the window.\<close>

definition chunk_end :: "DocumentService \<Rightarrow> string \<Rightarrow> int \<Rightarrow> int" where
  "chunk_end ds text start =
     (let end = start + chunkSize ds in
      if end < int (length text) then
        (let sentenceEnd = lastIndexOf text CHR ''.'' end;
             exclamationEnd = lastIndexOf text CHR ''!'' end;
             questionEnd = lastIndexOf text CHR ''?'' end;
             maxSentenceEnd = max (max sentenceEnd exclamationEnd) questionEnd
         in if real_of_int maxSentenceEnd > real_of_int start + real_of_int (chunkSize ds) * 0.5
            then maxSentenceEnd + 1
            else
              (let spaceIndex = lastIndexOf text CHR '' '' end
               in if real_of_int spaceIndex > real_of_int start + real_of_int (chunkSize ds) * 0.5
                  then spaceIndex else end))
      else end)"

text \<open>The next window start: \<^verbatim>\<open>start = end - this.chunkOverlap; if (start < 0) start = 0\<close>.\<close>

definition next_start :: "DocumentService \<Rightarrow> string \<Rightarrow> int \<Rightarrow> int" where
  "next_start ds text start =
     (let start' = chunk_end ds text start - chunkOverlap ds in if start' < 0 then 0 else start')"

text \<open>The \<^verbatim>\<open>while (start < text.length)\<close> loop. Nothing in its body bounds the number of
  iterations, so the result is optional: \<open>None\<close> stands for a loop that does not end.\<close>

partial_function (option) chunk_loop ::
  "DocumentService \<Rightarrow> string \<Rightarrow> int \<Rightarrow> string list \<Rightarrow> string list option" where
  "chunk_loop ds text start chunks =
     (if start < int (length text) then
        (let chunk = trim (js_slice text start (chunk_end ds text start))
         in chunk_loop ds text (next_start ds text start)
              (if length chunk > 0 then chunks @ [chunk] else chunks))
      else Some chunks)"

declare chunk_loop.simps [code]

definition splitIntoChunks :: "RegExp \<Rightarrow> DocumentService \<Rightarrow> string \<Rightarrow> string list option" where
  "splitIntoChunks rx ds text =
     (if length text = 0 then Some []
      else
        (let semanticChunks = createSemanticChunks rx ds text
         in if length semanticChunks > 0 then Some semanticChunks
            else chunk_loop ds text 0 []))"

section \<open>Notions used to state and prove the properties\<close>








text \<open>
  The cell \<open>matrix[i][j]\<close> of the Levenshtein matrix as a function of the two indices.
\<close>

fun lev_d :: "string \<Rightarrow> string \<Rightarrow> nat \<Rightarrow> nat \<Rightarrow> nat" where
  "lev_d s1 s2 0 j = j"
| "lev_d s1 s2 (Suc i) 0 = Suc i"
| "lev_d s1 s2 (Suc i) (Suc j) =
     (if s2 ! i = s1 ! j then lev_d s1 s2 i j
      else min (min (lev_d s1 s2 i j + 1) (lev_d s1 s2 (Suc i) j + 1)) (lev_d s1 s2 i (Suc j) + 1))"

text \<open>
  For the matching loop of \<^verbatim>\<open>jaroSimilarity\<close>: \<open>compat s t i j\<close> says that position \<open>i\<close> of
  \<open>s\<close> may be matched with position \<open>j\<close> of \<open>t\<close> (same character, inside the window);
  \<open>matching s t n M\<close> says that the set \<open>M\<close> of pairs is what the loop has matched after the
  positions below \<open>n\<close>: a one-to-one set of compatible pairs in which every compatible
  pair \<open>(i, j)\<close> with \<open>i < n\<close> has \<open>i\<close> matched at or before \<open>j\<close>, or \<open>j\<close> matched at or before
  \<open>i\<close>; \<open>jaro_inv\<close> ties the flag arrays and the counter of the loop to such a set.
\<close>

definition compat :: "string \<Rightarrow> string \<Rightarrow> nat \<Rightarrow> nat \<Rightarrow> bool" where
  "compat s t i j =
     (i < length s \<and> j < length t \<and> s ! i = t ! j \<and> \<bar>int i - int j\<bar> \<le> matchWindow s t)"

definition matching :: "string \<Rightarrow> string \<Rightarrow> nat \<Rightarrow> (nat \<times> nat) set \<Rightarrow> bool" where
  "matching s t n M =
     ((\<forall>i j. (i, j) \<in> M \<longrightarrow> compat s t i j \<and> i < n) \<and>
      (\<forall>i j j'. (i, j) \<in> M \<longrightarrow> (i, j') \<in> M \<longrightarrow> j = j') \<and>
      (\<forall>i i' j. (i, j) \<in> M \<longrightarrow> (i', j) \<in> M \<longrightarrow> i = i') \<and>
      (\<forall>i j. i < n \<longrightarrow> compat s t i j \<longrightarrow> (\<exists>j'\<le>j. (i, j') \<in> M) \<or> (\<exists>i'\<le>i. (i', j) \<in> M)))"

definition jaro_inv :: "string \<Rightarrow> string \<Rightarrow> nat \<Rightarrow> bool list \<times> bool list \<times> nat \<Rightarrow> bool" where
  "jaro_inv s t n st =
     (case st of (m1, m2, matches) \<Rightarrow>
        (\<exists>M. matching s t n M \<and> finite M \<and> length m1 = length s \<and> length m2 = length t \<and>
             (\<forall>i<length s. m1 ! i \<longleftrightarrow> i \<in> fst ` M) \<and>
             (\<forall>j<length t. m2 ! j \<longleftrightarrow> j \<in> snd ` M) \<and> matches = card M))"

section \<open>Example data\<close>

text \<open>A search result with a given id, extracted text and description, and a corpus of two
  results without a description.\<close>

definition example_hit :: "string \<Rightarrow> string \<Rightarrow> string \<Rightarrow> TrademarkSearchResult" where
  "example_hit i txt desc =
     \<lparr>tsr_id = i, tsr_score = 0.5,
      trademarkData =
        TrademarkData_new
          (map_of [(''nomorPermohonan'', ''JID2020000001''), (''namaReferensiLabelMerek'', txt),
                   (''kelasBarangJasa'', ''32''), (''uraianBarangJasa'', desc)]),
      sourceDocument = ''gazette.pdf'', chunkId = i, confidence = 50, matchedFields = [],
      extractedText = txt\<rparr>"

definition example_corpus :: "TrademarkSearchResult list" where
  "example_corpus = [example_hit ''v1'' ''COLA drink'' [], example_hit ''v2'' ''Pepsi'' []]"

text \<open>A provider that answers every call, and one that fails on every call.\<close>

definition example_env :: Env where
  "example_env =
     \<lparr>embeddings_create = (\<lambda>n t. Inr [1, 0]),
      math_random = (\<lambda>n. 0),
      index_query = (\<lambda>v dr. Inr example_corpus)\<rparr>"

definition failing_env :: Env where
  "failing_env =
     \<lparr>embeddings_create = (\<lambda>n t. Inl (ProviderError ''connection refused'')),
      math_random = (\<lambda>n. 1 / 2),
      index_query = (\<lambda>v dr. Inr [example_hit ''v1'' ''COLA drink'' ''soft drinks'']) \<rparr>"

definition example_opts :: Options where
  "example_opts =
     \<lparr>topK = Some 1, includePhonetic = Some True, includeVisual = Some False, dateRange = None\<rparr>"

definition world0 :: World where
  "world0 = \<lparr>calls = 0, draws = 0\<rparr>"




text \<open>Two valid records with different application numbers.\<close>

definition example_record :: "string \<Rightarrow> string \<Rightarrow> TrademarkData" where
  "example_record number name =
     TrademarkData_new
       (map_of [(''nomorPermohonan'', number), (''namaReferensiLabelMerek'', name),
                (''kelasBarangJasa'', ''32'')])"

text \<open>
  A document without the application-number anchor of the page-based pass, and the
  answers of the regular-expression engine on it: of the table patterns only
  \<^verbatim>\<open>nomorPermohonan[0]\<close>, \<^verbatim>\<open>tanggalPenerimaan[0]\<close>, \<^verbatim>\<open>namaPemohon[0]\<close>,
  \<^verbatim>\<open>namaReferensiLabelMerek[0]\<close> and \<^verbatim>\<open>kelasBarangJasa[1]\<close> match; no separator, anchor or
  clean-up pattern matches, so a split returns the text itself and a deletion changes
  nothing.
\<close>

definition example_document :: string where
  "example_document =
     ''210 220 320 01/02/2020 10:00:00 JID 1234567890 Nama Pemohon: PT ABC Nama Referensi Label Merek: SUPERCOLA Kelas Barang/Jasa: 25''"

definition example_rx :: RegExp where
  "example_rx =
     \<lparr>re_match = (\<lambda>p s.
        if s = example_document then
          map_of
            [(TablePattern ''nomorPermohonan'' 0, [Some ''JID 1234567890'', Some ''1234567890'']),
             (TablePattern ''tanggalPenerimaan'' 0,
                [Some ''210 220 320 01/02/2020 10:00:00'', Some ''01'', Some ''02'', Some ''2020'',
                 Some ''10'', Some ''00'', Some ''00'']),
             (TablePattern ''namaPemohon'' 0,
                [Some ''Nama Pemohon: PT ABC Nama Referensi Label Merek: SUPERCOLA Kelas Barang/Jasa: 25'',
                 Some ''PT ABC Nama Referensi Label Merek: SUPERCOLA Kelas Barang/Jasa: 25'']),
             (TablePattern ''namaReferensiLabelMerek'' 0,
                [Some ''Nama Referensi Label Merek: SUPERCOLA Kelas Barang/Jasa: 25'',
                 Some ''SUPERCOLA Kelas Barang/Jasa: 25'']),
             (TablePattern ''kelasBarangJasa'' 1, [Some ''Kelas Barang/Jasa: 25'', Some ''25''])] p
        else None),
      re_matchAll = (\<lambda>p s. []),
      re_split = (\<lambda>p s. [s]),
      re_delete = (\<lambda>p s. s)\<rparr>"

definition example_pages :: "PageChunk list" where
  "example_pages = [\<lparr>content = example_document, pageNumber = 1, hasTrademarkData = True\<rparr>]"

section \<open>Threshold update: partial merge\<close>

text \<open>
  C9 (as amended). An update request whose body passes the schema (the thresholds object
  is present and each provided value lies in [0, 1]) is merged into the configuration:
  each provided field takes the new value and each field not provided keeps its old
  value. A request that fails the schema is answered with status 400 and changes no
  field.
\<close>

theorem updateThresholds_partial_merge:
  "(schema_validate body = Some t \<longrightarrow>
      (let th = thresholds svc; th' = thresholds (snd (updateThresholds svc body)) in
        textSimilarity th' = (case textSimilarityB t of Some v \<Rightarrow> v | None \<Rightarrow> textSimilarity th) \<and>
        phoneticSimilarity th' = (case phoneticSimilarityB t of Some v \<Rightarrow> v | None \<Rightarrow> phoneticSimilarity th) \<and>
        semanticSimilarity th' = (case semanticSimilarityB t of Some v \<Rightarrow> v | None \<Rightarrow> semanticSimilarity th) \<and>
        overallSimilarity th' = (case overallSimilarityB t of Some v \<Rightarrow> v | None \<Rightarrow> overallSimilarity th)))
   \<and> (schema_validate body = None \<longrightarrow> updateThresholds svc body = (Http400, svc))"
  by (simp add: updateThresholds_def object_assign_def Let_def)

theorem updateThresholds_partial_merge_witness:
  "schema_validate \<lparr>thresholdsB = Some \<lparr>textSimilarityB = None, phoneticSimilarityB = None,
       semanticSimilarityB = None, overallSimilarityB = Some 0.5\<rparr>\<rparr>
     = Some \<lparr>textSimilarityB = None, phoneticSimilarityB = None,
       semanticSimilarityB = None, overallSimilarityB = Some 0.5\<rparr>
   \<and> thresholds (snd (updateThresholds SimilarityService_constructor
        \<lparr>thresholdsB = Some \<lparr>textSimilarityB = None, phoneticSimilarityB = None,
           semanticSimilarityB = None, overallSimilarityB = Some 0.5\<rparr>\<rparr>))
     = \<lparr>textSimilarity = 0.7, phoneticSimilarity = 0.8,
        semanticSimilarity = 0.6, overallSimilarity = 0.5\<rparr>
   \<and> schema_validate \<lparr>thresholdsB = None\<rparr> = None
   \<and> updateThresholds SimilarityService_constructor \<lparr>thresholdsB = None\<rparr>
       = (Http400, SimilarityService_constructor)"
  using updateThresholds_partial_merge
    [of "\<lparr>thresholdsB = Some \<lparr>textSimilarityB = None, phoneticSimilarityB = None,
           semanticSimilarityB = None, overallSimilarityB = Some 0.5\<rparr>\<rparr>"
        "\<lparr>textSimilarityB = None, phoneticSimilarityB = None,
           semanticSimilarityB = None, overallSimilarityB = Some 0.5\<rparr>"
        SimilarityService_constructor]
    updateThresholds_partial_merge [of "\<lparr>thresholdsB = None\<rparr>" undefined SimilarityService_constructor]
  by (simp add: schema_validate_def joi_unit_number_def SimilarityService_constructor_def Let_def)

text \<open>
  C9 (as stated) fails: the request \<^verbatim>\<open>{thresholds: {textSimilarity: 1.5}}\<close> provides the
  text threshold, is rejected by the schema, and the text threshold keeps its old value
  0.7.
\<close>

theorem updateThresholds_rejected_counterexample:
  "textSimilarity (thresholds (snd (updateThresholds SimilarityService_constructor
      \<lparr>thresholdsB = Some \<lparr>textSimilarityB = Some 1.5, phoneticSimilarityB = None,
         semanticSimilarityB = None, overallSimilarityB = None\<rparr>\<rparr>))) = 0.7
   \<and> textSimilarity (thresholds (snd (updateThresholds SimilarityService_constructor
      \<lparr>thresholdsB = Some \<lparr>textSimilarityB = Some 1.5, phoneticSimilarityB = None,
         semanticSimilarityB = None, overallSimilarityB = None\<rparr>\<rparr>))) \<noteq> 1.5"
  by (simp add: updateThresholds_def schema_validate_def joi_unit_number_def
      SimilarityService_constructor_def)

section \<open>Threshold filtering and the top-K bound\<close>

lemma set_slice0: "set (slice0 xs k) \<subseteq> set xs"
  by (auto simp: slice0_def dest: in_set_takeD)

lemma length_slice0: "0 \<le> k \<Longrightarrow> int (length (slice0 xs k)) \<le> k"
  by (simp add: slice0_def)

lemma filter_sort_slice_ge:
  "r \<in> set (filter_sort_slice th k xs) \<Longrightarrow> overallScore r \<ge> th"
  using set_slice0 [of "sort_key (\<lambda>r. - overallScore r) (filter (\<lambda>result. overallScore result \<ge> th) xs)" k]
  by (auto simp: filter_sort_slice_def)

lemma filter_sort_slice_length:
  "0 \<le> k \<Longrightarrow> int (length (filter_sort_slice th k xs)) \<le> k"
  by (simp add: filter_sort_slice_def length_slice0)

lemma analyzeSimilarity_Inr:
  assumes "analyzeSimilarity svc env target opts w = (Inr out, w')"
  shows "\<exists>xs. similarTrademarks out =
           filter_sort_slice (overallSimilarity (thresholds svc))
             (case topK opts of None \<Rightarrow> 20 | Some k \<Rightarrow> k) xs"
  using assms
  by (auto simp: analyzeSimilarity_def Let_def split: prod.splits sum.splits)

text \<open>The analysis of the example corpus for the query \<^verbatim>\<open>cola\<close>.\<close>

lemma hit_name:
  "text_trademarkName (example_hit i txt d) = takeWhile (\<lambda>c. c \<noteq> CHR '' '') txt"
  by (cases "txt")
     (simp_all add: text_trademarkName_def example_hit_def TrademarkSearchResult_prop_def
        js_or_def truthy_def str_of_def)

lemma hit_phonetic_name:
  "str_of (js_or (TrademarkSearchResult_prop (example_hit i txt d) ''namaMerek'') (Some [])) = []"
  by (simp add: TrademarkSearchResult_prop_def js_or_def truthy_def str_of_def)

lemma hit_description: "desc_description (example_hit i txt d) = d"
  by (cases d)
     (simp_all add: desc_description_def example_hit_def TrademarkSearchResult_prop_def
        TrademarkData_prop_def TrademarkData_new_def js_or_def truthy_def str_of_def)

lemma normalize_COLA: "normalizeText ''COLA'' = ''cola''"
  by code_simp

lemma normalize_Pepsi: "normalizeText ''Pepsi'' = ''pepsi''"
  by code_simp

lemma example_query: "normalizeText ''cola'' = ''cola''"
  by code_simp

lemma example_score1:
  "textSimilarity_of ''cola'' ''cola'' = \<lparr>overall = 1, levenshtein = 1, jaroWinkler = 1, substring = 1\<rparr>"
  by code_simp

lemma example_score2: "\<not> 0.7 \<le> overall (textSimilarity_of ''cola'' ''pepsi'')"
  by code_simp

lemma example_text1:
  "analyzeTextSimilarity SimilarityService_constructor ''cola'' [example_hit i ''COLA drink'' d] =
     [\<lparr>text_trademark = example_hit i ''COLA drink'' d,
       text_similarity = \<lparr>overall = 1, levenshtein = 1, jaroWinkler = 1, substring = 1\<rparr>\<rparr>]"
  by (simp add: analyzeTextSimilarity_def hit_name normalize_COLA
      example_query example_score1 SimilarityService_constructor_def)

lemma example_text:
  "analyzeTextSimilarity SimilarityService_constructor ''cola'' example_corpus =
     [\<lparr>text_trademark = example_hit ''v1'' ''COLA drink'' [],
       text_similarity = \<lparr>overall = 1, levenshtein = 1, jaroWinkler = 1, substring = 1\<rparr>\<rparr>]"
  using example_score2
  by (simp add: analyzeTextSimilarity_def example_corpus_def hit_name normalize_COLA normalize_Pepsi
      example_query example_score1 SimilarityService_constructor_def)

lemma example_phonetic1: "generatePhoneticCode ''cola'' = ''kola''"
  by code_simp

lemma example_phonetic2: "calculatePhoneticSimilarity ''kola'' [] = 0"
  by code_simp

lemma example_phonetic3: "generatePhoneticCode [] = []"
  by code_simp

lemma example_phon1:
  "analyzePhoneticSimilarity SimilarityService_constructor ''cola'' [example_hit i txt d] = []"
  by (simp add: analyzePhoneticSimilarity_def example_phonetic1 example_phonetic2
      example_phonetic3 hit_phonetic_name SimilarityService_constructor_def)

lemma example_phon:
  "analyzePhoneticSimilarity SimilarityService_constructor ''cola'' example_corpus = []"
  by (simp add: analyzePhoneticSimilarity_def example_corpus_def example_phonetic1 example_phonetic2
      example_phonetic3 hit_phonetic_name SimilarityService_constructor_def)

lemma example_desc: "desc_loop svc env te example_corpus w = (Inr [], w)"
  by (simp add: example_corpus_def hit_description trim_def)

lemma example_fused:
  "map overallScore
     (filter_sort_slice (overallSimilarity (thresholds SimilarityService_constructor)) 1
        (combineAndScoreResults ''cola''
           [\<lparr>text_trademark = example_hit ''v1'' ''COLA drink'' [],
             text_similarity = \<lparr>overall = 1, levenshtein = 1, jaroWinkler = 1, substring = 1\<rparr>\<rparr>] [] []))
   = [0.4]"
  by (simp add: combineAndScoreResults_def combinedMap_of_def combine_text_def score_item_def
      filter_sort_slice_def slice0_def SimilarityService_constructor_def CombinedItem.defs)

lemma example_analysis:
  "\<exists>out. analyzeSimilarity SimilarityService_constructor example_env ''cola'' example_opts world0
            = (Inr out, \<lparr>calls = 2, draws = 0\<rparr>)
         \<and> map overallScore (similarTrademarks out) = [0.4]"
  using example_fused
  by (simp add: analyzeSimilarity_def getAllTrademarks_def generateEmbedding_def example_env_def
       example_opts_def analyzeDescriptionSimilarity_def example_desc example_phon example_text
       world0_def Let_def)

text \<open>
  C4. Every result in the output of an analysis has an overall score that is at least the
  overall threshold of the service at the time of the call.
\<close>

theorem analyze_threshold_filter:
  "analyzeSimilarity svc env target opts w = (Inr out, w') \<Longrightarrow>
   \<forall>r \<in> set (similarTrademarks out). overallScore r \<ge> overallSimilarity (thresholds svc)"
  using analyzeSimilarity_Inr filter_sort_slice_ge by metis

theorem analyze_threshold_filter_witness:
  "list_all (\<lambda>r. overallScore r \<ge> 0.3)
     (similarTrademarks (projr (fst (analyzeSimilarity SimilarityService_constructor example_env
        ''cola'' example_opts world0))))
   \<and> length (similarTrademarks (projr (fst (analyzeSimilarity SimilarityService_constructor example_env
        ''cola'' example_opts world0)))) = 1"
proof -
  obtain out where
    a: "analyzeSimilarity SimilarityService_constructor example_env ''cola'' example_opts world0
          = (Inr out, \<lparr>calls = 2, draws = 0\<rparr>)"
    and b: "map overallScore (similarTrademarks out) = [0.4]"
    using example_analysis by auto
  have "\<forall>r \<in> set (similarTrademarks out).
          overallScore r \<ge> overallSimilarity (thresholds SimilarityService_constructor)"
    using analyze_threshold_filter [OF a] .
  moreover have "length (similarTrademarks out) = 1"
    using b by (metis length_map length_Cons list.size(3) One_nat_def)
  ultimately show ?thesis
    unfolding a by (simp add: list_all_iff SimilarityService_constructor_def)
qed

text \<open>
  C5. The list returned by an analysis holds at most \<open>topK\<close> results, where \<open>topK\<close> is 20
  when the options do not give it: for the service function whenever \<open>topK\<close> is not
  negative, and for every request that the endpoint accepts (its schema admits the
  integers from 1 to 50 only).
\<close>

theorem analyze_topK_bound:
  "(analyzeSimilarity svc env target opts w = (Inr out, w') \<longrightarrow>
      0 \<le> (case topK opts of None \<Rightarrow> 20 | Some k \<Rightarrow> k) \<longrightarrow>
      int (length (similarTrademarks out)) \<le> (case topK opts of None \<Rightarrow> 20 | Some k \<Rightarrow> k))
   \<and> (controller_analyzeSimilarity isoDate svc env body w = (Http200 out', w'') \<longrightarrow>
      int (length (similarTrademarks out'))
        \<le> (case optionsB body of None \<Rightarrow> 20
            | Some opts' \<Rightarrow> (case topK opts' of None \<Rightarrow> 20 | Some k \<Rightarrow> k)))"
proof (intro conjI impI)
  assume a: "analyzeSimilarity svc env target opts w = (Inr out, w')"
    and k: "0 \<le> (case topK opts of None \<Rightarrow> 20 | Some k \<Rightarrow> k)"
  from analyzeSimilarity_Inr [OF a] obtain xs where
    "similarTrademarks out = filter_sort_slice (overallSimilarity (thresholds svc))
       (case topK opts of None \<Rightarrow> 20 | Some k \<Rightarrow> k) xs" by blast
  then show "int (length (similarTrademarks out)) \<le> (case topK opts of None \<Rightarrow> 20 | Some k \<Rightarrow> k)"
    using filter_sort_slice_length [OF k] by simp
next
  assume c: "controller_analyzeSimilarity isoDate svc env body w = (Http200 out', w'')"
  then obtain t opts' where v: "analyze_schema isoDate body = Some (t, opts')"
    by (auto simp: controller_analyzeSimilarity_def split: option.splits)
  with c have a: "analyzeSimilarity svc env t opts' w = (Inr out', w'')"
    by (auto simp: controller_analyzeSimilarity_def split: prod.splits sum.splits)
  let ?k = "case optionsB body of None \<Rightarrow> 20
            | Some o' \<Rightarrow> (case topK o' of None \<Rightarrow> 20 | Some k \<Rightarrow> k)"
  from v have tk: "(case topK opts' of None \<Rightarrow> 20 | Some k \<Rightarrow> k) = ?k" and pos: "1 \<le> ?k"
    by (auto simp: analyze_schema_def split: option.splits if_splits)
  from analyzeSimilarity_Inr [OF a] obtain xs where
    "similarTrademarks out' = filter_sort_slice (overallSimilarity (thresholds svc)) ?k xs"
    unfolding tk by blast
  then show "int (length (similarTrademarks out')) \<le> ?k"
    using filter_sort_slice_length [of ?k] pos by simp
qed


lemma example_controller:
  "controller_analyzeSimilarity (\<lambda>s. True) SimilarityService_constructor example_env
     \<lparr>trademarkB = Some ''cola'', optionsB = Some example_opts\<rparr> world0
   = (case analyzeSimilarity SimilarityService_constructor example_env ''cola'' example_opts world0 of
        (Inl e, w1) \<Rightarrow> (Http500 e, w1) | (Inr result, w1) \<Rightarrow> (Http200 result, w1))"
  by (simp add: controller_analyzeSimilarity_def analyze_schema_def example_opts_def)

theorem analyze_topK_bound_witness:
  "int (length (similarTrademarks (projr (fst (analyzeSimilarity SimilarityService_constructor
       example_env ''cola'' example_opts world0))))) \<le> 1
   \<and> fst (controller_analyzeSimilarity (\<lambda>s. True) SimilarityService_constructor example_env
          \<lparr>trademarkB = Some ''cola'', optionsB = Some example_opts\<rparr> world0)
       = Http200 (projr (fst (analyzeSimilarity SimilarityService_constructor
            example_env ''cola'' example_opts world0)))
   \<and> map overallScore (similarTrademarks (projr (fst (analyzeSimilarity SimilarityService_constructor
       example_env ''cola'' example_opts world0)))) = [0.4]"
proof -
  obtain out where
    a: "analyzeSimilarity SimilarityService_constructor example_env ''cola'' example_opts world0
          = (Inr out, \<lparr>calls = 2, draws = 0\<rparr>)"
    and b: "map overallScore (similarTrademarks out) = [0.4]"
    using example_analysis by auto
  have c: "controller_analyzeSimilarity (\<lambda>s. True) SimilarityService_constructor example_env
     \<lparr>trademarkB = Some ''cola'', optionsB = Some example_opts\<rparr> world0
       = (Http200 out, \<lparr>calls = 2, draws = 0\<rparr>)"
    unfolding example_controller a by simp
  have "int (length (similarTrademarks out)) \<le> 1"
    using analyze_topK_bound [where svc = SimilarityService_constructor and env = example_env
        and target = "''cola''" and opts = example_opts and w = world0 and out = out
        and w' = "\<lparr>calls = 2, draws = 0\<rparr>" and isoDate = "\<lambda>s. True"
        and body = "\<lparr>trademarkB = Some ''cola'', optionsB = Some example_opts\<rparr>"
        and out' = out and w'' = "\<lparr>calls = 2, draws = 0\<rparr>"] a c
    by (simp add: example_opts_def)
  then show ?thesis unfolding c a using b by simp
qed


section \<open>Fusion of the three passes\<close>




















lemma score_item_overall:
  "overallScore (score_item item) =
     0.4 * (case textSimilarityC item of None \<Rightarrow> 0 | Some t \<Rightarrow> overall t)
     + 0.3 * (case descriptionSimilarityC item of None \<Rightarrow> 0 | Some d \<Rightarrow> semantic d)
     + 0.3 * (case phoneticSimilarityC item of None \<Rightarrow> 0 | Some p \<Rightarrow> phon_score p)"
  by (simp add: score_item_def Let_def CombinedItem.defs)















section \<open>Failure of the embedding provider\<close>

lemma generateEmbedding_fallback:
  assumes "embeddings_create env (calls w) (if length text > 8000 then take 8000 text else text) = Inl e"
  shows "generateEmbedding env text w =
           (map (\<lambda>i. math_random env (draws w + i) * 0.001) [0..<1536],
            w\<lparr>calls := Suc (calls w), draws := draws w + 1536\<rparr>)"
  using assms by (simp add: generateEmbedding_def Let_def)

lemma desc_loop_errors:
  "fst (desc_loop svc env te tms w) = Inl e \<Longrightarrow> e = VectorsLengthError"
proof (induction tms arbitrary: w)
  case Nil then show ?case by simp
next
  case (Cons tm tms)
  show ?case
  proof (cases "length (trim (desc_description tm)) > 0")
    case False
    then show ?thesis using Cons by simp
  next
    case True
    obtain de w1 where g: "generateEmbedding env (desc_description tm) w = (de, w1)" by force
    obtain res w2 where r: "desc_loop svc env te tms w1 = (res, w2)" by force
    show ?thesis
    proof (cases "calculateCosineSimilarity te de")
      case (Inl e')
      then have "e' = VectorsLengthError" by (simp add: calculateCosineSimilarity_def split: if_splits)
      then show ?thesis using Cons.prems True g Inl by (simp add: Let_def)
    next
      case (Inr x)
      then have "res = Inl e" using Cons.prems True g r
        by (cases res) (simp_all add: Let_def)
      then show ?thesis using Cons.IH [of w1] r by simp
    qed
  qed
qed

lemma analyzeSimilarity_errors:
  assumes "fst (analyzeSimilarity svc env target opts w) = Inl e"
  shows "e = VectorsLengthError \<or> (\<exists>message. e = IndexError message)"
proof -
  obtain qe w1 where g: "generateEmbedding env ''trademark brand'' w = (qe, w1)" by force
  show ?thesis
  proof (cases "index_query env qe (dateRange opts)")
    case (Inl message)
    then show ?thesis using assms g
      by (auto simp: analyzeSimilarity_def getAllTrademarks_def Let_def)
  next
    case (Inr all)
    obtain te w2 where g2: "generateEmbedding env target w1 = (te, w2)" by force
    obtain res w3 where d: "desc_loop svc env te all w2 = (res, w3)" by force
    have "res = Inl e" using assms g Inr g2 d
      by (auto simp: analyzeSimilarity_def getAllTrademarks_def analyzeDescriptionSimilarity_def Let_def
          split: sum.splits)
    then have "e = VectorsLengthError" using desc_loop_errors [of svc env te all w2 e] d by simp
    then show ?thesis by simp
  qed
qed

lemma sum_squares_pos:
  fixes v :: "real list"
  assumes "\<exists>x\<in>set v. x \<noteq> 0"
  shows "0 < sum_list (map (\<lambda>x. x * x) v)"
  using assms
proof (induction v)
  case Nil then show ?case by simp
next
  case (Cons a v)
  have nn: "0 \<le> sum_list (map (\<lambda>x. x * x) v)" by (rule sum_list_nonneg) auto
  show ?case
  proof (cases "a = 0")
    case True
    then show ?thesis using Cons by auto
  next
    case False
    then have "0 < a * a" by (cases "0 < a") (auto simp: zero_less_mult_iff)
    then show ?thesis using nn by simp
  qed
qed

lemma cosine_value_same:
  assumes "\<exists>x\<in>set v. x \<noteq> 0"
  shows "cosine_value v v = Some 1"
proof -
  have "0 < sum_list (map (\<lambda>x. x * x) v)" using assms by (rule sum_squares_pos)
  moreover have "map2 (*) v v = map (\<lambda>x. x * x) v" by (induction v) auto
  ultimately show ?thesis by (simp add: cosine_value_def Let_def)
qed

lemma failing_embedding:
  "generateEmbedding failing_env text w =
     (replicate 1536 (1 / 2000), w\<lparr>calls := Suc (calls w), draws := draws w + 1536\<rparr>)"
  by (simp add: generateEmbedding_def failing_env_def Let_def map_replicate_const)

lemma failing_cosine:
  "calculateCosineSimilarity (replicate 1536 (1 / 2000)) (replicate 1536 (1 / 2000)) = Inr (Some 1)"
proof -
  have "(1 / 2000 :: real) \<in> set (replicate 1536 (1 / 2000))" by simp
  moreover have "(1 / 2000 :: real) \<noteq> 0" by simp
  ultimately have "\<exists>x\<in>set (replicate 1536 (1 / 2000 :: real)). x \<noteq> 0" by blast
  then have "cosine_value (replicate 1536 (1 / 2000)) (replicate 1536 (1 / 2000)) = Some 1"
    by (rule cosine_value_same)
  then show ?thesis by (simp add: calculateCosineSimilarity_def)
qed

lemma failing_description:
  "desc_description (example_hit ''v1'' ''COLA drink'' ''soft drinks'') = ''soft drinks''"
  by code_simp

lemma failing_desc:
  "analyzeDescriptionSimilarity SimilarityService_constructor failing_env ''cola''
     [example_hit ''v1'' ''COLA drink'' ''soft drinks''] \<lparr>calls = Suc 0, draws = 1536\<rparr> =
   (Inr [\<lparr>desc_trademark = example_hit ''v1'' ''COLA drink'' ''soft drinks'',
          desc_similarity = \<lparr>semantic = 1, description = ''soft drinks...''\<rparr>\<rparr>],
    \<lparr>calls = 3, draws = 4608\<rparr>)"
  by (simp add: analyzeDescriptionSimilarity_def failing_embedding failing_cosine failing_description
      trim_def is_space_def nan_ge_def SimilarityService_constructor_def)


lemma failing_analysis:
  "analyzeSimilarity SimilarityService_constructor failing_env ''cola'' example_opts world0 =
     (Inr \<lparr>targetTrademark = ''cola'', totalCompared = 1,
           similarTrademarks =
             [score_item
                \<lparr>trademark = example_hit ''v1'' ''COLA drink'' ''soft drinks'',
                 textSimilarityC =
                   Some \<lparr>overall = 1, levenshtein = 1, jaroWinkler = 1, substring = 1\<rparr>,
                 descriptionSimilarityC = Some \<lparr>semantic = 1, description = ''soft drinks...''\<rparr>,
                 phoneticSimilarityC = None\<rparr>],
           options_topK = 1, options_includePhonetic = True, options_includeVisual = False,
           options_dateRange = None\<rparr>,
      \<lparr>calls = 3, draws = 4608\<rparr>)"
proof -
  have q: "index_query failing_env v dr = Inr [example_hit ''v1'' ''COLA drink'' ''soft drinks'']" for v dr
    by (simp add: failing_env_def)
  have k: "combine_key (example_hit ''v1'' ''COLA drink'' ''soft drinks'') = Some ''v1''"
    by (simp add: combine_key_def example_hit_def TrademarkSearchResult_prop_def js_or_def truthy_def)
  have f: "filter_sort_slice (3 / 10) 1
             [score_item
                \<lparr>trademark = example_hit ''v1'' ''COLA drink'' ''soft drinks'',
                 textSimilarityC =
                   Some \<lparr>overall = 1, levenshtein = 1, jaroWinkler = 1, substring = 1\<rparr>,
                 descriptionSimilarityC = Some \<lparr>semantic = 1, description = ''soft drinks...''\<rparr>,
                 phoneticSimilarityC = None\<rparr>]
           = [score_item
                \<lparr>trademark = example_hit ''v1'' ''COLA drink'' ''soft drinks'',
                 textSimilarityC =
                   Some \<lparr>overall = 1, levenshtein = 1, jaroWinkler = 1, substring = 1\<rparr>,
                 descriptionSimilarityC = Some \<lparr>semantic = 1, description = ''soft drinks...''\<rparr>,
                 phoneticSimilarityC = None\<rparr>]"
    by (simp add: filter_sort_slice_def slice0_def score_item_overall)
  have th: "overallSimilarity (thresholds SimilarityService_constructor) = 3 / 10"
    by (simp add: SimilarityService_constructor_def)
  show ?thesis
    by (simp add: analyzeSimilarity_def getAllTrademarks_def failing_embedding q world0_def
        example_opts_def failing_desc example_text1 example_phon1 combineAndScoreResults_def
        combinedMap_of_def combine_text_def combine_desc_def k f th Let_def)
qed

text \<open>
  C2 (as amended). When a call of the embedding provider fails, \<^verbatim>\<open>generateEmbedding\<close>
  catches the error and returns a replacement vector of 1536 random numbers, each scaled
  by 0.001, in place of the embedding; and the error of the provider is never the error
  with which an analysis fails.
\<close>

theorem embedding_failure_replaced:
  "(embeddings_create env (calls w) (if length text > 8000 then take 8000 text else text) = Inl e \<longrightarrow>
      generateEmbedding env text w =
        (map (\<lambda>i. math_random env (draws w + i) * 0.001) [0..<1536],
         w\<lparr>calls := Suc (calls w), draws := draws w + 1536\<rparr>))
   \<and> fst (analyzeSimilarity svc env target opts w') \<noteq> Inl (ProviderError message)"
  using generateEmbedding_fallback [of env w "text" e]
    analyzeSimilarity_errors [of svc env target opts w' "ProviderError message"]
  by blast

theorem embedding_failure_replaced_witness:
  "embeddings_create failing_env (calls world0) ''cola'' = Inl (ProviderError ''connection refused'')
   \<and> generateEmbedding failing_env ''cola'' world0 =
        (map (\<lambda>i. 1 / 2 * 0.001) [0..<1536], \<lparr>calls = 1, draws = 1536\<rparr>)
   \<and> fst (analyzeSimilarity SimilarityService_constructor failing_env ''cola'' example_opts world0)
        \<noteq> Inl (ProviderError ''connection refused'')"
  using embedding_failure_replaced
    [of failing_env world0 "''cola''" "ProviderError ''connection refused''"
        SimilarityService_constructor "''cola''" example_opts world0 "''connection refused''"]
  by (simp add: failing_env_def world0_def)

text \<open>
  C2 (as stated) fails: with a provider that fails on each of the three calls of an
  analysis (the corpus query, the target, the description of the one candidate) the
  analysis returns a result, in which the candidate has the semantic score 1 of two
  replacement vectors and the overall score 0.7.
\<close>

theorem embedding_failure_counterexample:
  "isl (embeddings_create failing_env 0 ''trademark brand'')
   \<and> isl (embeddings_create failing_env 1 ''cola'')
   \<and> isl (embeddings_create failing_env 2 ''soft drinks'')
   \<and> \<not> isl (fst (analyzeSimilarity SimilarityService_constructor failing_env ''cola'' example_opts world0))
   \<and> snd (analyzeSimilarity SimilarityService_constructor failing_env ''cola'' example_opts world0)
        = \<lparr>calls = 3, draws = 4608\<rparr>
   \<and> map (\<lambda>r. (breakdown_description (similarityBreakdown r), overallScore r))
        (similarTrademarks (projr (fst (analyzeSimilarity SimilarityService_constructor failing_env
           ''cola'' example_opts world0)))) = [(1, 0.7)]"
  unfolding failing_analysis
  by (simp add: failing_env_def score_item_def CombinedItem.defs)

section \<open>Termination of the chunker\<close>

lemma chunk_end_past_middle:
  assumes "0 < chunkSize ds"
  shows "real_of_int (chunk_end ds text start) > real_of_int start + real_of_int (chunkSize ds) * 0.5"
  using assms by (auto simp: chunk_end_def Let_def)

lemma next_start_advances:
  assumes "0 < chunkSize ds" "2 * chunkOverlap ds \<le> chunkSize ds" "0 \<le> start"
  shows "next_start ds text start > start"
    and "2 * (next_start ds text start - start) > chunkSize ds - 2 * chunkOverlap ds"
proof -
  have "real_of_int (chunk_end ds text start) > real_of_int start + real_of_int (chunkSize ds) * 0.5"
    using assms(1) by (rule chunk_end_past_middle)
  then have "2 * chunk_end ds text start > 2 * start + chunkSize ds"
    by linarith
  with assms show "next_start ds text start > start"
    and "2 * (next_start ds text start - start) > chunkSize ds - 2 * chunkOverlap ds"
    by (auto simp: next_start_def Let_def)
qed

lemma chunk_loop_terminates:
  assumes "0 < chunkSize ds" "2 * chunkOverlap ds \<le> chunkSize ds"
  shows "0 \<le> start \<Longrightarrow> \<exists>r. chunk_loop ds text start chunks = Some r"
proof (induction "nat (int (length text) - start)" arbitrary: start chunks rule: less_induct)
  case less
  show ?case
  proof (cases "start < int (length text)")
    case False
    then show ?thesis by (subst chunk_loop.simps) simp
  next
    case True
    have adv: "next_start ds text start > start"
      using assms less.prems by (rule next_start_advances)
    then have "nat (int (length text) - next_start ds text start) < nat (int (length text) - start)"
      using True by linarith
    moreover have "0 \<le> next_start ds text start" using adv less.prems by linarith
    ultimately obtain r where
      "chunk_loop ds text (next_start ds text start)
         (if length (trim (js_slice text start (chunk_end ds text start))) > 0
          then chunks @ [trim (js_slice text start (chunk_end ds text start))] else chunks) = Some r"
      using less.hyps by blast
    then show ?thesis using True by (subst chunk_loop.simps) (simp add: Let_def)
  qed
qed

text \<open>
  C10. The generic chunker returns for every input text: the loop of the configured
  service (chunk size 2000, overlap 400) always ends, because each iteration moves the
  window start forward, by at least half the chunk size minus the overlap; the empty text
  gives the empty list.
\<close>

theorem splitIntoChunks_total:
  "splitIntoChunks rx DocumentService_constructor text \<noteq> None
   \<and> splitIntoChunks rx DocumentService_constructor [] = Some []
   \<and> (0 \<le> start \<longrightarrow>
        next_start DocumentService_constructor text start
          \<ge> start + (chunkSize DocumentService_constructor div 2 - chunkOverlap DocumentService_constructor)
        \<and> next_start DocumentService_constructor text start > start)"
proof -
  have cfg: "0 < chunkSize DocumentService_constructor"
    "2 * chunkOverlap DocumentService_constructor \<le> chunkSize DocumentService_constructor"
    by (simp_all add: DocumentService_constructor_def)
  have "\<exists>r. chunk_loop DocumentService_constructor text 0 [] = Some r"
    using cfg by (rule chunk_loop_terminates) simp
  then have "splitIntoChunks rx DocumentService_constructor text \<noteq> None"
    by (auto simp: splitIntoChunks_def Let_def)
  moreover have "splitIntoChunks rx DocumentService_constructor [] = Some []"
    by (simp add: splitIntoChunks_def)
  moreover have "0 \<le> start \<longrightarrow>
        next_start DocumentService_constructor text start
          \<ge> start + (chunkSize DocumentService_constructor div 2 - chunkOverlap DocumentService_constructor)
        \<and> next_start DocumentService_constructor text start > start"
    using next_start_advances [OF cfg, of start "text"]
    by (auto simp: DocumentService_constructor_def)
  ultimately show ?thesis by blast
qed

theorem splitIntoChunks_total_witness:
  "(0::int) \<le> 0
   \<and> next_start DocumentService_constructor ''Hello world. This is text.'' 0 = 1600
   \<and> splitIntoChunks example_rx DocumentService_constructor ''Hello world. This is text.''
       = Some [''Hello world. This is text.'']"
proof -
  have "next_start DocumentService_constructor ''Hello world. This is text.'' 0 = 1600"
    by code_simp
  moreover have "splitIntoChunks example_rx DocumentService_constructor ''Hello world. This is text.''
       = Some [''Hello world. This is text.'']"
    by code_simp
  ultimately show ?thesis
    using splitIntoChunks_total [of example_rx "''Hello world. This is text.''" 0] by simp
qed

section \<open>Deduplication\<close>

text \<open>No record has a property \<^verbatim>\<open>applicationNumber\<close>, so every record has the key
  \<^verbatim>\<open>undefined\<close> and only the first record of a list is kept.\<close>

lemma applicationNumber_undefined: "TrademarkData_prop tm ''applicationNumber'' = None"
  by (simp add: TrademarkData_prop_def)

lemma dedup_loop_seen:
  "None \<in> set seen \<Longrightarrow> dedup_loop tms seen unique = unique"
  by (induction tms) (simp_all add: applicationNumber_undefined)

lemma deduplicateTrademarks_first_only: "deduplicateTrademarks (tm # tms) = [tm]"
  by (simp add: deduplicateTrademarks_def applicationNumber_undefined dedup_loop_seen)

text \<open>
  C1 (the code at a failing input). Two valid records with the different application
  numbers JID2020000001 and JID2020000002 go in, and only the first comes out: the
  second is discarded although no earlier record has its application number.
\<close>

theorem deduplicate_distinct_numbers:
  "deduplicateTrademarks
     [example_record ''JID2020000001'' ''COLA'', example_record ''JID2020000002'' ''PEPSI'']
   = [example_record ''JID2020000001'' ''COLA'']
   \<and> nomorPermohonan (example_record ''JID2020000001'' ''COLA'') = ''JID2020000001''
   \<and> nomorPermohonan (example_record ''JID2020000002'' ''PEPSI'') = ''JID2020000002''
   \<and> isValid (example_record ''JID2020000001'' ''COLA'')
   \<and> isValid (example_record ''JID2020000002'' ''PEPSI'')"
  by (simp add: deduplicateTrademarks_first_only example_record_def TrademarkData_new_def
      isValid_def js_or_def truthy_def str_of_def)

section \<open>The fallback pass\<close>

lemma extractionMethod_undefined: "TrademarkData_prop tm ''extractionMethod'' = None"
  by (simp add: TrademarkData_prop_def)

text \<open>
  C8 (as amended). When the page-based pass over the document yields no valid record,
  the traditional pass over the full text runs exactly once and its records are the
  result; when it yields a record, the traditional pass does not run. No record of the
  traditional pass carries a property \<^verbatim>\<open>extractionMethod\<close>.
\<close>

theorem fallback_runs_once:
  "(page_based_trademarks rx pageChunks = [] \<longrightarrow>
      parseTrademarkDataEnhanced svc rx pageChunks fullText = (extractTrademarkData svc rx fullText, 1))
   \<and> (page_based_trademarks rx pageChunks \<noteq> [] \<longrightarrow>
      snd (parseTrademarkDataEnhanced svc rx pageChunks fullText) = 0)
   \<and> (\<forall>r \<in> set (extractTrademarkData svc rx fullText).
        TrademarkData_prop r ''extractionMethod'' = None \<and> isValid r)"
  by (auto simp: parseTrademarkDataEnhanced_def Let_def extractionMethod_undefined
      extractTrademarkData_def isValidTrademark_def)

lemma example_page_based: "page_based_trademarks example_rx example_pages = []"
  by code_simp

lemma example_fallback:
  "map (\<lambda>r. (nomorPermohonan r, namaReferensiLabelMerek r, kelasBarangJasa r))
     (extractTrademarkData TrademarkParserService_constructor example_rx example_document)
   = [(''1234567890'', ''SUPERCOLA Kelas Barang/Jasa: 25'', ''25'')]"
  by code_simp

theorem fallback_runs_once_witness:
  "page_based_trademarks example_rx example_pages = []
   \<and> parseTrademarkDataEnhanced TrademarkParserService_constructor example_rx example_pages
        example_document
      = (extractTrademarkData TrademarkParserService_constructor example_rx example_document, 1)
   \<and> map (\<lambda>r. (nomorPermohonan r, TrademarkData_prop r ''extractionMethod''))
        (extractTrademarkData TrademarkParserService_constructor example_rx example_document)
      = [(''1234567890'', None)]"
  using fallback_runs_once
    [of example_rx example_pages TrademarkParserService_constructor example_document]
    example_page_based example_fallback
  by (auto simp: extractionMethod_undefined)

text \<open>
  C8 (as stated) fails: the example document has no anchor of the page-based pass, the
  traditional pass yields one valid record for it, and the property \<^verbatim>\<open>extractionMethod\<close>
  of that record is \<^verbatim>\<open>undefined\<close>, not \<^verbatim>\<open>"fallback-coarse"\<close>.
\<close>

theorem fallback_tag_counterexample:
  "page_based_trademarks example_rx example_pages = []
   \<and> map (\<lambda>r. (nomorPermohonan r, TrademarkData_prop r ''extractionMethod''))
        (fst (parseTrademarkDataEnhanced TrademarkParserService_constructor example_rx
           example_pages example_document))
      = [(''1234567890'', None)]
   \<and> snd (parseTrademarkDataEnhanced TrademarkParserService_constructor example_rx
           example_pages example_document) = 1
   \<and> None \<noteq> Some ''fallback-coarse''"
  using example_fallback
  by (auto simp: parseTrademarkDataEnhanced_def example_page_based extractionMethod_undefined)

section \<open>The lexical score of a string against itself\<close>

text \<open>
  C6 (the code at a failing input). For the one-character string \<^verbatim>\<open>a\<close> the match window of
  \<^verbatim>\<open>jaroSimilarity\<close> is \<open>-1\<close>, the scan range is empty, no character is matched and the Jaro
  similarity of the string with itself is 0; the combined lexical score is
  0.4 * 1 + 0.4 * 0 + 0.2 * 1 = 0.6, not 1.
\<close>

theorem lexicalScore_single_character:
  "normalizeText ''a'' = ''a''
   \<and> matchWindow ''a'' ''a'' = - 1
   \<and> jaroSimilarity ''a'' ''a'' = 0
   \<and> calculateJaroWinklerSimilarity ''a'' ''a'' = 0
   \<and> calculateLevenshteinSimilarity ''a'' ''a'' = 1
   \<and> calculateSubstringSimilarity ''a'' ''a'' = 1
   \<and> lexicalScore ''a'' ''a'' = 0.6"
  by code_simp

section \<open>Symmetry of the lexical measures\<close>

subsection \<open>Levenshtein\<close>

lemma lev_d_0 [simp]: "lev_d s1 s2 i 0 = i"
  by (cases i) simp_all

lemma lev_d_sym: "lev_d s1 s2 i j = lev_d s2 s1 j i"
proof (induction s1 s2 i j rule: lev_d.induct)
  case (3 s1 s2 i j)
  then show ?case by (auto simp: min.commute min.left_commute min.assoc)
qed simp_all

lemma lev_row_eq:
  assumes "j \<le> length s1" "c = s2 ! i"
  shows "lev_row c (drop j s1) (drop j (map (lev_d s1 s2 i) [0..<Suc (length s1)])) (lev_d s1 s2 (Suc i) j)
         = map (lev_d s1 s2 (Suc i)) [Suc j..<Suc (length s1)]"
  using assms(1)
proof (induction "length s1 - j" arbitrary: j)
  case 0
  then show ?case by simp
next
  case (Suc n)
  then have j: "j < length s1" by linarith
  have d: "drop j s1 = s1 ! j # drop (Suc j) s1" using j by (simp add: Cons_nth_drop_Suc)
  let ?prev = "drop j (map (lev_d s1 s2 i) [0..<Suc (length s1)])"
  have p0: "?prev ! 0 = lev_d s1 s2 i j" using j by (simp del: upt_Suc)
  have p1: "?prev ! 1 = lev_d s1 s2 i (Suc j)" using j by (simp del: upt_Suc)
  have tl: "tl ?prev = drop (Suc j) (map (lev_d s1 s2 i) [0..<Suc (length s1)])"
    by (simp only: drop_Suc tl_drop)
  have v: "(if c = s1 ! j then ?prev ! 0 else min (min (?prev ! 0 + 1) (lev_d s1 s2 (Suc i) j + 1)) (?prev ! 1 + 1))
            = lev_d s1 s2 (Suc i) (Suc j)"
    unfolding p0 p1 using assms(2) by simp
  have ih: "lev_row c (drop (Suc j) s1) (drop (Suc j) (map (lev_d s1 s2 i) [0..<Suc (length s1)]))
              (lev_d s1 s2 (Suc i) (Suc j)) = map (lev_d s1 s2 (Suc i)) [Suc (Suc j)..<Suc (length s1)]"
    using Suc.hyps(1) [of "Suc j"] Suc.hyps(2) j by simp
  have u: "[Suc j..<Suc (length s1)] = Suc j # [Suc (Suc j)..<Suc (length s1)]"
    using j by (simp add: upt_conv_Cons)
  show ?case
    unfolding d lev_row.simps Let_def v tl ih u by simp
qed

lemma lev_rows_eq:
  assumes "i \<le> length s2"
  shows "lev_rows s1 (drop i s2) (map (lev_d s1 s2 i) [0..<Suc (length s1)]) (Suc i)
         = map (\<lambda>i'. map (lev_d s1 s2 i') [0..<Suc (length s1)]) [Suc i..<Suc (length s2)]"
  using assms
proof (induction "length s2 - i" arbitrary: i)
  case 0
  then show ?case by simp
next
  case (Suc n)
  then have i: "i < length s2" by linarith
  have d: "drop i s2 = s2 ! i # drop (Suc i) s2" using i by (simp add: Cons_nth_drop_Suc)
  have row: "Suc i # lev_row (s2 ! i) s1 (map (lev_d s1 s2 i) [0..<Suc (length s1)]) (Suc i)
             = map (lev_d s1 s2 (Suc i)) [0..<Suc (length s1)]"
    using lev_row_eq [of 0 s1 "s2 ! i" s2 i] by (simp add: upt_conv_Cons del: upt_Suc)
  have ih: "lev_rows s1 (drop (Suc i) s2) (map (lev_d s1 s2 (Suc i)) [0..<Suc (length s1)]) (Suc (Suc i))
         = map (\<lambda>i'. map (lev_d s1 s2 i') [0..<Suc (length s1)]) [Suc (Suc i)..<Suc (length s2)]"
    using Suc.hyps(1) [of "Suc i"] Suc.hyps(2) i by simp
  have u: "[Suc i..<Suc (length s2)] = Suc i # [Suc (Suc i)..<Suc (length s2)]"
    using i by (simp add: upt_conv_Cons)
  show ?case
    unfolding d lev_rows.simps Let_def row ih u by simp
qed

lemma lev_matrix_eq:
  "lev_matrix s1 s2 = map (\<lambda>i. map (lev_d s1 s2 i) [0..<Suc (length s1)]) [0..<Suc (length s2)]"
proof -
  have r0: "[0..<Suc (length s1)] = map (lev_d s1 s2 0) [0..<Suc (length s1)]"
    by (simp add: map_idI)
  have "lev_rows s1 s2 (map (lev_d s1 s2 0) [0..<Suc (length s1)]) (Suc 0)
         = map (\<lambda>i'. map (lev_d s1 s2 i') [0..<Suc (length s1)]) [Suc 0..<Suc (length s2)]"
    using lev_rows_eq [of 0 s2 s1] by simp
  then show ?thesis
    unfolding lev_matrix_def Let_def
    by (subst (2) r0, subst (1) r0) (simp add: upt_conv_Cons del: upt_Suc)
qed

lemma levenshteinDistance_eq: "levenshteinDistance s1 s2 = lev_d s1 s2 (length s2) (length s1)"
  unfolding levenshteinDistance_def lev_matrix_eq
  by (simp del: upt_Suc)

lemma levenshteinDistance_sym: "levenshteinDistance s1 s2 = levenshteinDistance s2 s1"
  by (simp add: levenshteinDistance_eq lev_d_sym)

lemma levenshteinSimilarity_sym:
  "calculateLevenshteinSimilarity s1 s2 = calculateLevenshteinSimilarity s2 s1"
  by (simp add: calculateLevenshteinSimilarity_def Let_def levenshteinDistance_sym [of s1 s2] max.commute)


subsection \<open>Longest common substring\<close>

lemma common_run_le: "common_run xs ys \<le> length xs"
  by (induction xs ys rule: common_run.induct) auto

lemma common_run_sym: "common_run xs ys = common_run ys xs"
  by (induction xs ys rule: common_run.induct) auto

lemma lcs_step_length:
  "length (lcs_step s t i j longest) = max (length longest) (common_run (drop i s) (drop j t))"
  using common_run_le [of "drop i s" "drop j t"]
  by (auto simp: lcs_step_def Let_def simp del: length_drop)

lemma lcs_inner_length:
  "n \<le> length (fold (lcs_step s t i) js longest) \<longleftrightarrow>
     n \<le> length longest \<or> (\<exists>j\<in>set js. n \<le> common_run (drop i s) (drop j t))"
  by (induction js arbitrary: longest) (auto simp: lcs_step_length)

lemma lcs_outer_length:
  "n \<le> length (fold (\<lambda>i. fold (lcs_step s t i) js) is longest) \<longleftrightarrow>
     n \<le> length longest \<or> (\<exists>i\<in>set is. \<exists>j\<in>set js. n \<le> common_run (drop i s) (drop j t))"
  by (induction "is" arbitrary: longest) (auto simp: lcs_inner_length)

lemma lcs_length_le_iff:
  "n \<le> length (longestCommonSubstring s t) \<longleftrightarrow>
     n = 0 \<or> (\<exists>i<length s. \<exists>j<length t. n \<le> common_run (drop i s) (drop j t))"
  by (auto simp: longestCommonSubstring_def lcs_outer_length)

lemma lcs_length_sym: "length (longestCommonSubstring s t) = length (longestCommonSubstring t s)"
proof -
  have "n \<le> length (longestCommonSubstring s t) \<longleftrightarrow> n \<le> length (longestCommonSubstring t s)" for n
    unfolding lcs_length_le_iff by (auto simp: common_run_sym [of "drop _ s"])
  then show ?thesis by (meson order_refl order_antisym)
qed

lemma substringSimilarity_sym:
  "calculateSubstringSimilarity s t = calculateSubstringSimilarity t s"
  by (auto simp: calculateSubstringSimilarity_def Let_def lcs_length_sym [of s t])

subsection \<open>Jaro and Jaro-Winkler\<close>

text \<open>
  The greedy loop computes the one matching that is stable when both strings prefer
  earlier positions; this description does not depend on the order of the two strings,
  so scanning from the other string flags the same positions.
\<close>

lemma matchingD:
  assumes "matching s t n M" "(i, j) \<in> M"
  shows "compat s t i j" "i < n"
  using assms unfolding matching_def by blast+

lemma matching_fun:
  assumes "matching s t n M" "(i, j) \<in> M" "(i, j') \<in> M"
  shows "j = j'"
  using assms unfolding matching_def by blast

lemma matching_inj:
  assumes "matching s t n M" "(i, j) \<in> M" "(i', j) \<in> M"
  shows "i = i'"
  using assms unfolding matching_def by blast

lemma matching_stable:
  assumes "matching s t n M" "i < n" "compat s t i j"
  shows "(\<exists>j'\<le>j. (i, j') \<in> M) \<or> (\<exists>i'\<le>i. (i', j) \<in> M)"
  using assms unfolding matching_def by blast

lemma fst_converse: "fst ` (M\<inverse>) = snd ` M"
  by force

lemma snd_converse: "snd ` (M\<inverse>) = fst ` M"
  by force

lemma matchWindow_sym: "matchWindow s t = matchWindow t s"
  by (simp add: matchWindow_def max.commute)

lemma compat_sym: "compat s t i j = compat t s j i"
  by (auto simp: compat_def matchWindow_sym [of s t] abs_minus_commute)

lemma matching_converse:
  assumes "matching s t (length s) M"
  shows "matching t s (length t) (M\<inverse>)"
  using assms unfolding matching_def compat_sym [of t s]
  by (auto simp: compat_def)

lemma matching_step:
  assumes M: "matching s t n M" and M': "matching s t n M'"
    and IH: "\<And>i' j'. i' + j' < i + j \<Longrightarrow> (i', j') \<in> M \<longleftrightarrow> (i', j') \<in> M'"
    and mem: "(i, j) \<in> M"
  shows "(i, j) \<in> M'"
proof -
  from M mem have c: "compat s t i j" and n: "i < n" by (rule matchingD)+
  from matching_stable [OF M' n c]
  consider j' where "j' \<le> j" "(i, j') \<in> M'" | i' where "i' \<le> i" "(i', j) \<in> M'"
    by blast
  then show ?thesis
  proof cases
    case 1
    show ?thesis
    proof (cases "j' = j")
      case True with 1 show ?thesis by simp
    next
      case False
      with 1 have "i + j' < i + j" by simp
      then have "(i, j') \<in> M" using IH 1 by blast
      with M mem have "j' = j" using matching_fun by blast
      with False show ?thesis by simp
    qed
  next
    case 2
    show ?thesis
    proof (cases "i' = i")
      case True with 2 show ?thesis by simp
    next
      case False
      with 2 have "i' + j < i + j" by simp
      then have "(i', j) \<in> M" using IH 2 by blast
      with M mem have "i' = i" using matching_inj by blast
      with False show ?thesis by simp
    qed
  qed
qed

lemma matching_unique_aux:
  assumes M: "matching s t n M" and M': "matching s t n M'"
  shows "(i, j) \<in> M \<longleftrightarrow> (i, j) \<in> M'"
proof (induction "i + j" arbitrary: i j rule: less_induct)
  case less
  have "(i, j) \<in> M \<Longrightarrow> (i, j) \<in> M'"
    using matching_step [OF M M'] less by blast
  moreover have "(i, j) \<in> M' \<Longrightarrow> (i, j) \<in> M"
    using matching_step [OF M' M] less by blast
  ultimately show ?case by blast
qed

lemma matching_unique:
  assumes "matching s t n M" and "matching s t n M'"
  shows "M = M'"
  using matching_unique_aux [OF assms] by auto

text \<open>The scan of one iteration.\<close>

lemma find_upt_None:
  "find P [a..<b] = None \<Longrightarrow> a \<le> j \<Longrightarrow> j < b \<Longrightarrow> \<not> P j"
  by (auto simp: find_None_iff)

lemma find_upt_Some:
  assumes "find P [a..<b] = Some j"
  shows "a \<le> j" "j < b" "P j" "\<And>j'. a \<le> j' \<Longrightarrow> j' < j \<Longrightarrow> \<not> P j'"
proof -
  from assms obtain k where k: "k < length [a..<b]" "P ([a..<b] ! k)" "j = [a..<b] ! k"
    "\<forall>k'<k. \<not> P ([a..<b] ! k')"
    unfolding find_Some_iff by blast
  then have j: "j = a + k" "k < b - a" by simp_all
  show "a \<le> j" "j < b" "P j" using j k by simp_all
  fix j' assume "a \<le> j'" "j' < j"
  then have "j' - a < k" "[a..<b] ! (j' - a) = j'" using j by simp_all
  then show "\<not> P j'" using k(4) by metis
qed

lemma scan_range:
  "nat (max 0 (int i - w)) \<le> j \<and> j < nat (min (int i + w + 1) (int n)) \<longleftrightarrow>
     j < n \<and> \<bar>int i - int j\<bar> \<le> w"
  by auto

lemma jaro_scan_None:
  assumes "jaro_scan s t m2 i = None" "j < length t" "\<bar>int i - int j\<bar> \<le> matchWindow s t" "s ! i = t ! j"
  shows "m2 ! j"
proof -
  have "nat (max 0 (int i - matchWindow s t)) \<le> j \<and> j < nat (min (int i + matchWindow s t + 1) (int (length t)))"
    using assms(2,3) by (simp only: scan_range)
  then show ?thesis
    using find_upt_None [OF assms(1) [unfolded jaro_scan_def Let_def], of j] assms(4) by blast
qed

lemma jaro_scan_Some:
  assumes "jaro_scan s t m2 i = Some j"
  shows "j < length t" "\<bar>int i - int j\<bar> \<le> matchWindow s t" "s ! i = t ! j" "\<not> m2 ! j"
    "\<And>j'. j' < j \<Longrightarrow> j' < length t \<Longrightarrow> \<bar>int i - int j'\<bar> \<le> matchWindow s t \<Longrightarrow> s ! i = t ! j' \<Longrightarrow> m2 ! j'"
proof -
  note f = find_upt_Some [OF assms [unfolded jaro_scan_def Let_def]]
  have r: "j < length t \<and> \<bar>int i - int j\<bar> \<le> matchWindow s t"
    using f(1,2) by (simp only: scan_range [symmetric])
  then show "j < length t" "\<bar>int i - int j\<bar> \<le> matchWindow s t" by simp_all
  show "s ! i = t ! j" "\<not> m2 ! j" using f(3) by simp_all
  fix j' assume a: "j' < j" "j' < length t" "\<bar>int i - int j'\<bar> \<le> matchWindow s t" "s ! i = t ! j'"
  then have "nat (max 0 (int i - matchWindow s t)) \<le> j'" by (simp only: scan_range [of i "matchWindow s t" j' "length t"])
  then show "m2 ! j'" using f(4) [of j'] a by blast
qed


lemma matching_None:
  assumes M: "matching s t n M"
    and fl: "\<forall>j<length t. m2 ! j \<longleftrightarrow> j \<in> snd ` M"
    and sc: "jaro_scan s t m2 n = None"
  shows "matching s t (Suc n) M"
  unfolding matching_def
proof (intro conjI allI impI)
  fix i j assume m: "(i, j) \<in> M"
  show "compat s t i j" using M m by (rule matchingD)
  have "i < n" using M m by (rule matchingD)
  then show "i < Suc n" by simp
next
  fix i j j' assume "(i, j) \<in> M" "(i, j') \<in> M"
  with M show "j = j'" by (rule matching_fun)
next
  fix i i' j assume "(i, j) \<in> M" "(i', j) \<in> M"
  with M show "i = i'" by (rule matching_inj)
next
  fix i j assume i: "i < Suc n" and c: "compat s t i j"
  show "(\<exists>j'\<le>j. (i, j') \<in> M) \<or> (\<exists>i'\<le>i. (i', j) \<in> M)"
  proof (cases "i < n")
    case True
    with M show ?thesis using c by (rule matching_stable)
  next
    case False
    then have in': "i = n" using i by simp
    from c have jl: "j < length t" and "\<bar>int n - int j\<bar> \<le> matchWindow s t" "s ! n = t ! j"
      unfolding in' by (simp_all add: compat_def)
    then have "m2 ! j" using jaro_scan_None [OF sc] by blast
    then have "j \<in> snd ` M" using fl jl by blast
    then obtain i' where i': "(i', j) \<in> M" by force
    have "i' < n" using M i' by (rule matchingD)
    then have "i' \<le> i" unfolding in' by simp
    then show ?thesis using i' by blast
  qed
qed

lemma matching_Some:
  assumes M: "matching s t n M"
    and fl: "\<forall>j<length t. m2 ! j \<longleftrightarrow> j \<in> snd ` M"
    and sc: "jaro_scan s t m2 n = Some k"
    and n: "n < length s"
  shows "matching s t (Suc n) (insert (n, k) M)" "(n, k) \<notin> M" "n \<notin> fst ` M" "k \<notin> snd ` M" "k < length t"
proof -
  note S = jaro_scan_Some [OF sc]
  have ck: "compat s t n k" using S(1-3) n by (simp add: compat_def)
  show kl: "k < length t" by (rule S(1))
  show nk: "k \<notin> snd ` M" using S(4) fl kl by blast
  have lt: "i < n" if "(i, j) \<in> M" for i j using M that by (rule matchingD)
  show nn: "n \<notin> fst ` M"
  proof
    assume "n \<in> fst ` M"
    then obtain j where "(n, j) \<in> M" by force
    then have "n < n" by (rule lt)
    then show False by simp
  qed
  have nn': "(n, j) \<notin> M" for j using nn by force
  have nk': "(i, k) \<notin> M" for i using nk by force
  show "(n, k) \<notin> M" by (rule nn')
  show "matching s t (Suc n) (insert (n, k) M)"
    unfolding matching_def
  proof (intro conjI allI impI)
    fix i j assume m: "(i, j) \<in> insert (n, k) M"
    show "compat s t i j"
    proof (cases "(i, j) \<in> M")
      case True with M show ?thesis by (rule matchingD)
    next
      case False with m ck show ?thesis by simp
    qed
    show "i < Suc n"
    proof (cases "(i, j) \<in> M")
      case True then have "i < n" by (rule lt) then show ?thesis by simp
    next
      case False with m show ?thesis by simp
    qed
  next
    fix i j j' assume a: "(i, j) \<in> insert (n, k) M" "(i, j') \<in> insert (n, k) M"
    show "j = j'"
    proof (cases "i = n")
      case True with a nn' show ?thesis by simp
    next
      case False
      with a have "(i, j) \<in> M" "(i, j') \<in> M" by simp_all
      with M show ?thesis by (rule matching_fun)
    qed
  next
    fix i i' j assume a: "(i, j) \<in> insert (n, k) M" "(i', j) \<in> insert (n, k) M"
    show "i = i'"
    proof (cases "j = k")
      case True with a nk' show ?thesis by simp
    next
      case False
      with a have "(i, j) \<in> M" "(i', j) \<in> M" by simp_all
      with M show ?thesis by (rule matching_inj)
    qed
  next
    fix i j assume i: "i < Suc n" and c: "compat s t i j"
    show "(\<exists>j'\<le>j. (i, j') \<in> insert (n, k) M) \<or> (\<exists>i'\<le>i. (i', j) \<in> insert (n, k) M)"
    proof (cases "i < n")
      case True
      with M have "(\<exists>j'\<le>j. (i, j') \<in> M) \<or> (\<exists>i'\<le>i. (i', j) \<in> M)"
        using c by (rule matching_stable)
      then show ?thesis by blast
    next
      case False
      then have in': "i = n" using i by simp
      show ?thesis
      proof (cases "k \<le> j")
        case True
        then have "\<exists>j'\<le>j. (i, j') \<in> insert (n, k) M" unfolding in' by blast
        then show ?thesis by blast
      next
        case False
        then have jk: "j < k" by simp
        from c have jl: "j < length t" and "\<bar>int n - int j\<bar> \<le> matchWindow s t" "s ! n = t ! j"
          unfolding in' by (simp_all add: compat_def)
        with jk have "m2 ! j" using S(5) by blast
        then have "j \<in> snd ` M" using fl jl by blast
        then obtain i' where i': "(i', j) \<in> M" by force
        have "i' < n" using i' by (rule lt)
        then have "i' \<le> i" unfolding in' by simp
        then show ?thesis using i' by blast
      qed
    qed
  qed
qed

lemma jaro_inv_step:
  assumes n: "n < length s" and inv: "jaro_inv s t n st"
  shows "jaro_inv s t (Suc n) (jaro_match_step s t n st)"
proof -
  obtain m1 m2 c where st: "st = (m1, m2, c)" by (cases st)
  from inv obtain M where M: "matching s t n M" and fin: "finite M"
    and l1: "length m1 = length s" and l2: "length m2 = length t"
    and f1: "\<forall>i<length s. m1 ! i \<longleftrightarrow> i \<in> fst ` M"
    and f2: "\<forall>j<length t. m2 ! j \<longleftrightarrow> j \<in> snd ` M" and c: "c = card M"
    unfolding jaro_inv_def st by auto
  show ?thesis
  proof (cases "jaro_scan s t m2 n")
    case None
    have "matching s t (Suc n) M" using M f2 None by (rule matching_None)
    then show ?thesis
      unfolding jaro_inv_def jaro_match_step_def st using None fin l1 l2 f1 f2 c by auto
  next
    case (Some k)
    note S = matching_Some [OF M f2 Some n]
    have g1: "\<forall>i<length s. (m1[n := True]) ! i \<longleftrightarrow> i \<in> fst ` insert (n, k) M"
      using f1 l1 n by (auto simp: nth_list_update)
    have g2: "\<forall>j<length t. (m2[k := True]) ! j \<longleftrightarrow> j \<in> snd ` insert (n, k) M"
      using f2 l2 S(5) by (auto simp: nth_list_update)
    have g3: "Suc c = card (insert (n, k) M)" using fin S(2) c by simp
    have "\<exists>M'. matching s t (Suc n) M' \<and> finite M' \<and> length (m1[n := True]) = length s \<and>
            length (m2[k := True]) = length t \<and>
            (\<forall>i<length s. (m1[n := True]) ! i \<longleftrightarrow> i \<in> fst ` M') \<and>
            (\<forall>j<length t. (m2[k := True]) ! j \<longleftrightarrow> j \<in> snd ` M') \<and> Suc c = card M'"
      using S(1) fin l1 l2 g1 g2 g3 by (intro exI [of _ "insert (n, k) M"]) simp
    then show ?thesis
      unfolding jaro_inv_def jaro_match_step_def st using Some by simp
  qed
qed

lemma jaro_inv_fold:
  "n \<le> length s \<Longrightarrow>
   jaro_inv s t n (fold (jaro_match_step s t) [0..<n]
      (replicate (length s) False, replicate (length t) False, 0))"
proof (induction n)
  case 0
  have "matching s t 0 {}" by (simp add: matching_def)
  then show ?case by (auto simp: jaro_inv_def intro!: exI [of _ "{}"])
next
  case (Suc n)
  then show ?case using jaro_inv_step [of n s t] by simp
qed

lemma jaro_matches_inv: "jaro_inv s t (length s) (jaro_matches s t)"
  unfolding jaro_matches_def by (rule jaro_inv_fold) simp

lemma jaro_matches_sym:
  assumes "jaro_matches s t = (m1, m2, c)"
  shows "jaro_matches t s = (m2, m1, c)"
proof -
  obtain m1' m2' c' where r: "jaro_matches t s = (m1', m2', c')" by (cases "jaro_matches t s")
  from jaro_matches_inv [of s t] assms obtain M where M: "matching s t (length s) M" and fin: "finite M"
    and l1: "length m1 = length s" and l2: "length m2 = length t"
    and f1: "\<forall>i<length s. m1 ! i \<longleftrightarrow> i \<in> fst ` M"
    and f2: "\<forall>j<length t. m2 ! j \<longleftrightarrow> j \<in> snd ` M" and c: "c = card M"
    unfolding jaro_inv_def by auto
  from jaro_matches_inv [of t s] r obtain M' where M': "matching t s (length t) M'"
    and l1': "length m1' = length t" and l2': "length m2' = length s"
    and f1': "\<forall>i<length t. m1' ! i \<longleftrightarrow> i \<in> fst ` M'"
    and f2': "\<forall>j<length s. m2' ! j \<longleftrightarrow> j \<in> snd ` M'" and c': "c' = card M'"
    unfolding jaro_inv_def by auto
  have eq: "M' = M\<inverse>" using M' matching_converse [OF M] by (rule matching_unique)
  have "m1' = m2" using l1' l2 f1' f2 unfolding eq fst_converse by (auto intro!: nth_equalityI)
  moreover have "m2' = m1" using l2' l1 f2' f1 unfolding eq snd_converse by (auto intro!: nth_equalityI)
  moreover have "c' = c" unfolding c c' eq by (simp add: card_inverse)
  ultimately show ?thesis using r by simp
qed


lemma length_filter_upt: "length (filter P [0..<n]) = card {i. i < n \<and> P i}"
proof -
  have "{i. i < length [0..<n] \<and> P ([0..<n] ! i)} = {i. i < n \<and> P i}" by auto
  then show ?thesis unfolding length_filter_conv_card by simp
qed

lemma jaro_matches_counts:
  assumes "jaro_matches s t = (m1, m2, c)"
  shows "length m1 = length s" "length m2 = length t"
    "length (filter (\<lambda>i. m1 ! i) [0..<length s]) = c"
    "length (filter (\<lambda>j. m2 ! j) [0..<length t]) = c"
proof -
  from jaro_matches_inv [of s t] assms obtain M where M: "matching s t (length s) M" and fin: "finite M"
    and l1: "length m1 = length s" and l2: "length m2 = length t"
    and f1: "\<forall>i<length s. m1 ! i \<longleftrightarrow> i \<in> fst ` M"
    and f2: "\<forall>j<length t. m2 ! j \<longleftrightarrow> j \<in> snd ` M" and c: "c = card M"
    unfolding jaro_inv_def by auto
  show "length m1 = length s" "length m2 = length t" by (rule l1, rule l2)
  have b1: "i < length s" if "i \<in> fst ` M" for i
  proof -
    from that obtain j where "(i, j) \<in> M" by force
    with M show ?thesis by (rule matchingD)
  qed
  have b2: "j < length t" if "j \<in> snd ` M" for j
  proof -
    from that obtain i where "(i, j) \<in> M" by force
    with M have "compat s t i j" by (rule matchingD)
    then show ?thesis by (simp add: compat_def)
  qed
  have i1: "inj_on fst M"
    by (rule inj_onI) (metis M matching_fun prod.collapse)
  have i2: "inj_on snd M"
    by (rule inj_onI) (metis M matching_inj prod.collapse)
  have "{i. i < length s \<and> m1 ! i} = fst ` M" using f1 b1 by blast
  then have "length (filter (\<lambda>i. m1 ! i) [0..<length s]) = card (fst ` M)"
    by (simp only: length_filter_upt)
  then show "length (filter (\<lambda>i. m1 ! i) [0..<length s]) = c"
    unfolding c by (simp add: card_image i1)
  have "{j. j < length t \<and> m2 ! j} = snd ` M" using f2 b2 by blast
  then have "length (filter (\<lambda>j. m2 ! j) [0..<length t]) = card (snd ` M)"
    by (simp only: length_filter_upt)
  then show "length (filter (\<lambda>j. m2 ! j) [0..<length t]) = c"
    unfolding c by (simp add: card_image i2)
qed

text \<open>The second loop counts the positions at which the two sequences of matched
  characters differ.\<close>

lemma skip_unmatched_first:
  assumes "k \<le> j" "j < length m" "m ! j"
  shows "k \<le> skip_unmatched m k \<and> skip_unmatched m k \<le> j \<and> m ! skip_unmatched m k
         \<and> (\<forall>j'. k \<le> j' \<and> j' < skip_unmatched m k \<longrightarrow> \<not> m ! j')"
  using assms
proof (induction m k rule: skip_unmatched.induct)
  case (1 m k)
  show ?case
  proof (cases "k < length m \<and> \<not> m ! k")
    case True
    then have "k \<noteq> j" using "1.prems" by auto
    then have kj: "Suc k \<le> j" using "1.prems" by simp
    have eq: "skip_unmatched m k = skip_unmatched m (Suc k)"
      using True by (subst skip_unmatched.simps) simp
    from "1.IH" [OF True kj "1.prems"(2,3)]
    have a: "Suc k \<le> skip_unmatched m (Suc k)" and b: "skip_unmatched m (Suc k) \<le> j"
      and c: "m ! skip_unmatched m (Suc k)"
      and d: "\<And>j'. Suc k \<le> j' \<Longrightarrow> j' < skip_unmatched m (Suc k) \<Longrightarrow> \<not> m ! j'"
      by blast+
    have "\<not> m ! j'" if "k \<le> j'" "j' < skip_unmatched m (Suc k)" for j'
    proof (cases "j' = k")
      case True' : True
      then show ?thesis using True by simp
    next
      case False
      then have "Suc k \<le> j'" using that(1) by simp
      then show ?thesis using that(2) by (rule d)
    qed
    then show ?thesis unfolding eq using a b c by auto
  next
    case False
    then have mk: "m ! k" using "1.prems" by auto
    have eq: "skip_unmatched m k = k"
      using False by (subst skip_unmatched.simps) auto
    show ?thesis unfolding eq using mk "1.prems" by auto
  qed
qed

lemma filter_upt_first:
  assumes "k \<le> k'" "k' < n" "P k'" "\<forall>j'. k \<le> j' \<and> j' < k' \<longrightarrow> \<not> P j'"
  shows "filter P [k..<n] = k' # filter P [Suc k'..<n]"
proof -
  have "[k..<n] = [k..<k'] @ k' # [Suc k'..<n]"
    using assms(1,2) by (metis le_add_diff_inverse less_imp_le_nat upt_add_eq_append upt_conv_Cons)
  moreover have "filter P [k..<k'] = []" using assms(4) by (auto simp: filter_empty_conv)
  ultimately show ?thesis using assms(3) by simp
qed

lemma jaro_transpositions_count:
  assumes "length m2 = length t"
  shows "length (filter (\<lambda>i. m1 ! i) is) \<le> length (filter (\<lambda>j. m2 ! j) [k..<length t]) \<Longrightarrow>
         jaro_transpositions s t m1 m2 is k tr =
           tr + length (filter (\<lambda>(x, y). x \<noteq> y)
                  (zip (map ((!) s) (filter (\<lambda>i. m1 ! i) is))
                       (map ((!) t) (filter (\<lambda>j. m2 ! j) [k..<length t]))))"
proof (induction "is" arbitrary: k tr)
  case Nil
  then show ?case by simp
next
  case (Cons i "is")
  show ?case
  proof (cases "m1 ! i")
    case False
    then show ?thesis using Cons by simp
  next
    case True
    with Cons.prems have "filter (\<lambda>j. m2 ! j) [k..<length t] \<noteq> []" by auto
    then obtain j where j: "k \<le> j" "j < length t" "m2 ! j"
      by (auto simp: filter_empty_conv)
    let ?k = "skip_unmatched m2 k"
    from skip_unmatched_first [of k j m2] j assms
    have sk: "k \<le> ?k" "?k \<le> j" "m2 ! ?k" "\<forall>j'. k \<le> j' \<and> j' < ?k \<longrightarrow> \<not> m2 ! j'"
      by simp_all
    have f: "filter (\<lambda>j. m2 ! j) [k..<length t] = ?k # filter (\<lambda>j. m2 ! j) [Suc ?k..<length t]"
      using sk j by (intro filter_upt_first) auto
    have le: "length (filter (\<lambda>i. m1 ! i) is) \<le> length (filter (\<lambda>j. m2 ! j) [Suc ?k..<length t])"
      using Cons.prems True unfolding f by simp
    show ?thesis
      using True Cons.IH [OF le] unfolding f by (simp add: Let_def)
  qed
qed

lemma mismatch_sym:
  "length (filter (\<lambda>(x, y). x \<noteq> y) (zip xs ys)) = length (filter (\<lambda>(x, y). x \<noteq> y) (zip ys xs))"
proof (induction xs arbitrary: ys)
  case Nil then show ?case by simp
next
  case (Cons x xs)
  then show ?case by (cases ys) auto
qed

lemma jaro_transpositions_sym:
  assumes "jaro_matches s t = (m1, m2, c)"
  shows "jaro_transpositions s t m1 m2 [0..<length s] 0 0 =
         jaro_transpositions t s m2 m1 [0..<length t] 0 0"
proof -
  note C = jaro_matches_counts [OF assms]
  have "jaro_transpositions s t m1 m2 [0..<length s] 0 0 =
          length (filter (\<lambda>(x, y). x \<noteq> y)
                  (zip (map ((!) s) (filter (\<lambda>i. m1 ! i) [0..<length s]))
                       (map ((!) t) (filter (\<lambda>j. m2 ! j) [0..<length t]))))"
    using jaro_transpositions_count [OF C(2), of m1 "[0..<length s]" 0 s 0] C(3,4) by simp
  moreover have "jaro_transpositions t s m2 m1 [0..<length t] 0 0 =
          length (filter (\<lambda>(x, y). x \<noteq> y)
                  (zip (map ((!) t) (filter (\<lambda>j. m2 ! j) [0..<length t]))
                       (map ((!) s) (filter (\<lambda>i. m1 ! i) [0..<length s]))))"
    using jaro_transpositions_count [OF C(1), of m2 "[0..<length t]" 0 t 0] C(3,4) by simp
  ultimately show ?thesis by (simp add: mismatch_sym)
qed

lemma jaroSimilarity_sym: "jaroSimilarity s t = jaroSimilarity t s"
proof -
  obtain m1 m2 c where r: "jaro_matches s t = (m1, m2, c)" by (cases "jaro_matches s t")
  have r': "jaro_matches t s = (m2, m1, c)" using r by (rule jaro_matches_sym)
  show ?thesis
    unfolding jaroSimilarity_def r r' using jaro_transpositions_sym [OF r]
    by (auto simp: Let_def add.commute)
qed

lemma common_prefix_sym: "common_prefix n xs ys = common_prefix n ys xs"
  by (induction n xs ys rule: common_prefix.induct) auto

lemma jaroWinkler_sym:
  "calculateJaroWinklerSimilarity s t = calculateJaroWinklerSimilarity t s"
  by (simp add: calculateJaroWinklerSimilarity_def Let_def jaroSimilarity_sym [of s t]
      common_prefix_sym [of 4 s t])


text \<open>
  C7. The combined lexical score is symmetric in its two strings, and so is each of its
  three parts: the Levenshtein similarity, the Jaro-Winkler similarity and the
  longest-common-substring similarity.
\<close>

theorem lexicalScore_symmetric:
  "calculateLevenshteinSimilarity s t = calculateLevenshteinSimilarity t s
   \<and> calculateJaroWinklerSimilarity s t = calculateJaroWinklerSimilarity t s
   \<and> calculateSubstringSimilarity s t = calculateSubstringSimilarity t s
   \<and> lexicalScore a b = lexicalScore b a"
  by (simp add: lexicalScore_def textSimilarity_of_def Let_def
      levenshteinSimilarity_sym [of s t] jaroWinkler_sym [of s t] substringSimilarity_sym [of s t]
      levenshteinSimilarity_sym [of "normalizeText a" "normalizeText b"]
      jaroWinkler_sym [of "normalizeText a" "normalizeText b"]
      substringSimilarity_sym [of "normalizeText a" "normalizeText b"])

section \<open>The score of a string against itself, for every string\<close>

text \<open>
  Outside the one-character case the three measures of a string against itself are all 1:
  the diagonal is the stable matching as soon as the match window is not negative.
\<close>

lemma lev_d_diag: "lev_d s s i i = 0"
  by (induction i) simp_all

lemma levenshteinSimilarity_self: "calculateLevenshteinSimilarity s s = 1"
  by (simp add: calculateLevenshteinSimilarity_def levenshteinDistance_eq lev_d_diag)

lemma common_run_self: "common_run s s = length s"
  by (induction s) simp_all

lemma lcs_length_self: "length (longestCommonSubstring s s) = length s"
proof (rule antisym)
  have "length (longestCommonSubstring s s) = 0 \<or>
        (\<exists>i<length s. \<exists>j<length s. length (longestCommonSubstring s s) \<le> common_run (drop i s) (drop j s))"
    using lcs_length_le_iff [of "length (longestCommonSubstring s s)" s s] by simp
  then show "length (longestCommonSubstring s s) \<le> length s"
  proof
    assume "length (longestCommonSubstring s s) = 0" then show ?thesis by simp
  next
    assume "\<exists>i<length s. \<exists>j<length s. length (longestCommonSubstring s s) \<le> common_run (drop i s) (drop j s)"
    then obtain i j where "length (longestCommonSubstring s s) \<le> common_run (drop i s) (drop j s)" by blast
    also have "\<dots> \<le> length (drop i s)" by (rule common_run_le)
    also have "\<dots> \<le> length s" by simp
    finally show ?thesis .
  qed
  show "length s \<le> length (longestCommonSubstring s s)"
  proof (cases "s = []")
    case True then show ?thesis by simp
  next
    case False
    then have "0 < length s" by simp
    moreover have "length s \<le> common_run (drop 0 s) (drop 0 s)" by (simp add: common_run_self)
    ultimately show ?thesis unfolding lcs_length_le_iff by blast
  qed
qed

lemma substringSimilarity_self: "calculateSubstringSimilarity s s = 1"
  by (simp add: calculateSubstringSimilarity_def lcs_length_self)

lemma matching_diag:
  assumes "2 \<le> length s"
  shows "matching s s (length s) (Id_on {..<length s})"
proof -
  have w: "0 \<le> matchWindow s s" using assms by (simp add: matchWindow_def)
  show ?thesis
    unfolding matching_def
  proof (intro conjI allI impI)
    fix i j assume "(i, j) \<in> Id_on {..<length s}"
    then show "compat s s i j" "i < length s" using w by (auto simp: compat_def)
  next
    fix i j j' assume "(i, j) \<in> Id_on {..<length s}" "(i, j') \<in> Id_on {..<length s}"
    then show "j = j'" by auto
  next
    fix i i' j assume "(i, j) \<in> Id_on {..<length s}" "(i', j) \<in> Id_on {..<length s}"
    then show "i = i'" by auto
  next
    fix i j assume i: "i < length s" and c: "compat s s i j"
    then have j: "j < length s" by (simp add: compat_def)
    show "(\<exists>j'\<le>j. (i, j') \<in> Id_on {..<length s}) \<or> (\<exists>i'\<le>i. (i', j) \<in> Id_on {..<length s})"
    proof (cases "i \<le> j")
      case True
      then have "\<exists>j'\<le>j. (i, j') \<in> Id_on {..<length s}" using i by auto
      then show ?thesis by blast
    next
      case False
      then have "j \<le> i" by simp
      then have "\<exists>i'\<le>i. (i', j) \<in> Id_on {..<length s}" using j by auto
      then show ?thesis by blast
    qed
  qed
qed

lemma matching_single:
  assumes "length s = 1"
  shows "matching s s (length s) {}"
  using assms by (auto simp: matching_def compat_def matchWindow_def)

lemma jaro_matches_self:
  assumes "2 \<le> length s"
  shows "jaro_matches s s = (replicate (length s) True, replicate (length s) True, length s)"
proof -
  obtain m1 m2 c where r: "jaro_matches s s = (m1, m2, c)" by (cases "jaro_matches s s")
  from jaro_matches_inv [of s s] r obtain M where M: "matching s s (length s) M"
    and l1: "length m1 = length s" and l2: "length m2 = length s"
    and f1: "\<forall>i<length s. m1 ! i \<longleftrightarrow> i \<in> fst ` M"
    and f2: "\<forall>j<length s. m2 ! j \<longleftrightarrow> j \<in> snd ` M" and c: "c = card M"
    unfolding jaro_inv_def by auto
  have eq: "M = Id_on {..<length s}" using M matching_diag [OF assms] by (rule matching_unique)
  have i1: "fst ` Id_on {..<length s} = {..<length s}" by force
  have i2: "snd ` Id_on {..<length s} = {..<length s}" by force
  have "m1 = replicate (length s) True" using l1 f1 unfolding eq i1 by (auto intro!: nth_equalityI)
  moreover have "m2 = replicate (length s) True" using l2 f2 unfolding eq i2 by (auto intro!: nth_equalityI)
  moreover have "card (Id_on {..<length s}) = length s"
  proof -
    have "Id_on {..<length s} = (\<lambda>i. (i, i)) ` {..<length s}" by auto
    moreover have "inj_on (\<lambda>i. (i, i)) {..<length s}" by (simp add: inj_on_def)
    ultimately show ?thesis by (simp add: card_image)
  qed
  ultimately show ?thesis using r c eq by simp
qed

lemma jaro_matches_single:
  assumes "length s = 1"
  shows "jaro_matches s s = ([False], [False], 0)"
proof -
  obtain m1 m2 c where r: "jaro_matches s s = (m1, m2, c)" by (cases "jaro_matches s s")
  from jaro_matches_inv [of s s] r obtain M where M: "matching s s (length s) M"
    and l1: "length m1 = length s" and l2: "length m2 = length s"
    and f1: "\<forall>i<length s. m1 ! i \<longleftrightarrow> i \<in> fst ` M"
    and f2: "\<forall>j<length s. m2 ! j \<longleftrightarrow> j \<in> snd ` M" and c: "c = card M"
    unfolding jaro_inv_def by auto
  have eq: "M = {}" using M matching_single [OF assms] by (rule matching_unique)
  have "m1 = [False]" using l1 f1 assms unfolding eq by (auto intro!: nth_equalityI)
  moreover have "m2 = [False]" using l2 f2 assms unfolding eq by (auto intro!: nth_equalityI)
  ultimately show ?thesis using r c eq by simp
qed

lemma mismatch_self: "filter (\<lambda>(x, y). x \<noteq> y) (zip xs xs) = []"
  by (induction xs) auto

lemma jaroSimilarity_self:
  "jaroSimilarity s s = (if length s = 1 then 0 else 1)"
proof -
  consider "length s = 0" | "length s = 1" | "2 \<le> length s" by linarith
  then show ?thesis
  proof cases
    case 1 then show ?thesis by (simp add: jaroSimilarity_def)
  next
    case 2 then show ?thesis by (simp add: jaroSimilarity_def jaro_matches_single)
  next
    case 3
    have l: "length (replicate (length s) True) = length s" by simp
    have "jaro_transpositions s s (replicate (length s) True) (replicate (length s) True)
            [0..<length s] 0 0 = 0"
      using jaro_transpositions_count [OF l, of "replicate (length s) True" "[0..<length s]" 0 s 0]
      by (simp add: mismatch_self)
    then show ?thesis using 3 by (simp add: jaroSimilarity_def jaro_matches_self)
  qed
qed

lemma jaroWinkler_self:
  "calculateJaroWinklerSimilarity s s = (if length s = 1 then 0 else 1)"
  by (simp add: calculateJaroWinklerSimilarity_def jaroSimilarity_self Let_def)

text \<open>The score of a string against itself: 1, except 0.6 when the normalised string has one
  character.\<close>

lemma lexicalScore_self:
  "lexicalScore a a = (if length (normalizeText a) = 1 then 0.6 else 1)"
  by (simp add: lexicalScore_def textSimilarity_of_def Let_def levenshteinSimilarity_self
      jaroWinkler_self substringSimilarity_self)


end
